theory Spec2Isabelle
  imports Complex_Main "HOL-Library.Word"
begin

section \<open>Data model of \<open>SceneManager.cpp\<close>\<close>

text \<open>
  The embedding follows \<open>src/Source/SceneManager.cpp\<close>. Member functions take the object
  (and the OpenGL context it drives) as an explicit state and return the updated state.
  Undefined behaviour of the C++ (a write or read outside the 16-entry texture array, a
  call through a null \<open>m_pShaderManager\<close>) is a \<open>fault\<close> value: a function that can
  reach it returns \<open>fault + result\<close>.

  The class declaration (\<open>SceneManager.h\<close>) is not among the sources. The types used here
  are the ones the function bodies force: \<open>TEXTURE_INFO::ID\<close> receives a \<open>GLuint\<close> and
  its address is passed to \<open>glGenTextures\<close>, so it is an unsigned 32-bit integer;
  \<open>m_textureIDs\<close> has the 16 entries the constructor initialises. \<open>m_loadedTextures\<close>
  starts at 0 and is only incremented, and the write at index 16 is a fault, so it is
  modelled as a natural number. Values of C++ type \<open>float\<close> are never computed with in
  the modelled functions (only stored, copied and passed on), so \<open>float\<close> is the type
  parameter \<open>'f\<close>; the GLM matrix type is the type parameter \<open>'m\<close>.
\<close>

type_synonym GLuint = "32 word"

datatype fault = OutOfBounds | NullDereference

text \<open>\<open>glm::vec3\<close>, \<open>glm::vec2\<close>, \<open>glm::vec4\<close>: tuples of floats.\<close>

type_synonym 'f vec2 = "'f \<times> 'f"
type_synonym 'f vec3 = "'f \<times> 'f \<times> 'f"
type_synonym 'f vec4 = "'f \<times> 'f \<times> 'f \<times> 'f"

text \<open>An entry of \<open>m_textureIDs\<close> (\<open>TEXTURE_INFO\<close>): the fields \<open>tag\<close>, a
  \<open>std::string\<close>, and \<open>ID\<close>, the OpenGL texture name.\<close>

record TEXTURE_INFO =
  tex_tag :: string
  tex_ID :: GLuint

text \<open>\<open>struct OBJECT_MATERIAL\<close>: the fields the source reads and writes
  (\<open>diffuseColor\<close>, \<open>specularColor\<close>, \<open>shininess\<close>, \<open>tag\<close>).\<close>

record 'f OBJECT_MATERIAL =
  diffuseColor :: "'f vec3"
  specularColor :: "'f vec3"
  shininess :: 'f
  mat_tag :: string

text \<open>What \<open>stbi_load\<close> reports for a decoded image: the three \<open>int\<close> out-parameters.
  The pixel buffer itself is only handed on to \<open>glTexImage2D\<close>.\<close>

record image =
  img_width :: int
  img_height :: int
  colorChannels :: int

text \<open>The OpenGL enumerants the source names.\<close>

datatype GLenum = GL_TEXTURE_2D | GL_TEXTURE_WRAP_S | GL_TEXTURE_WRAP_T
  | GL_TEXTURE_MIN_FILTER | GL_TEXTURE_MAG_FILTER | GL_REPEAT | GL_LINEAR
  | GL_RGB8 | GL_RGBA8 | GL_RGB | GL_RGBA | GL_UNSIGNED_BYTE

text \<open>
  The calls into the external libraries (OpenGL, stb_image) are effects on a context the
  program does not own. They are recorded, in program order, as a trace of events.
  Console output (\<open>std::cout\<close>) is not recorded.
\<close>

datatype event =
    StbiSetFlipVerticallyOnLoad bool
  | StbiLoad string
  | StbiImageFree
  | GlGenTextures GLuint
  | GlBindTexture GLenum GLuint
  | GlTexParameteri GLenum GLenum GLenum
  | GlTexImage2D GLenum GLenum int int GLenum
  | GlGenerateMipmap GLenum
  | GlActiveTexture nat

text \<open>A value pushed to a named shader uniform, one constructor per setter of the shader
  manager.\<close>

datatype ('f, 'm) uniform_value =
    UMat4 'm
  | UInt int
  | UBool bool
  | UFloat 'f
  | UVec2 "'f vec2"
  | UVec3 "'f vec3"
  | UVec4 "'f vec4"
  | USampler2D int

text \<open>The shader manager object: the pushes it has received, oldest first.\<close>

type_synonym ('f, 'm) ShaderManager = "(string \<times> ('f, 'm) uniform_value) list"

text \<open>
  The state: the members of \<open>SceneManager\<close> and the context of the external libraries.
  \<open>m_pShaderManager = None\<close> is the null pointer. \<open>gl_supply\<close> is the sequence of
  texture names the OpenGL driver hands out (\<open>glGenTextures\<close> returns the next one);
  \<open>trace\<close> is the list of library calls made so far.
\<close>

record ('f, 'm) state =
  m_pShaderManager :: "('f, 'm) ShaderManager option"
  m_textureIDs :: "TEXTURE_INFO list"
  m_loadedTextures :: nat
  m_objectMaterials :: "'f OBJECT_MATERIAL list"
  gl_supply :: "nat \<Rightarrow> GLuint"
  trace :: "event list"

text \<open>The functions of GLM that \<open>SetTransformations\<close> calls, as parameters:
  \<open>glm::scale\<close>, \<open>glm::rotate\<close>, \<open>glm::translate\<close>, \<open>glm::radians\<close>, the product of two
  \<open>glm::mat4\<close>, and the float literals \<open>0.0f\<close> and \<open>1.0f\<close>.\<close>

record ('f, 'm) glm =
  glm_scale :: "'f vec3 \<Rightarrow> 'm"
  glm_rotate :: "'f \<Rightarrow> 'f vec3 \<Rightarrow> 'm"
  glm_translate :: "'f vec3 \<Rightarrow> 'm"
  glm_radians :: "'f \<Rightarrow> 'f"
  glm_mul :: "'m \<Rightarrow> 'm \<Rightarrow> 'm"
  lit_0 :: 'f
  lit_1 :: 'f

section \<open>Helpers for effects and faults\<close>

text \<open>Sequencing of a computation that may fault.\<close>

definition and_then :: "fault + 'a \<Rightarrow> ('a \<Rightarrow> fault + 'b) \<Rightarrow> fault + 'b" where
  "and_then r f = (case r of Inl e \<Rightarrow> Inl e | Inr x \<Rightarrow> f x)"

definition emit :: "event \<Rightarrow> ('f, 'm) state \<Rightarrow> ('f, 'm) state" where
  "emit e s = s\<lparr>trace := trace s @ [e]\<rparr>"

text \<open>The texture names \<open>glGenTextures\<close> has returned so far.\<close>

fun generated_names :: "event list \<Rightarrow> GLuint list" where
  "generated_names [] = []"
| "generated_names (GlGenTextures h # es) = h # generated_names es"
| "generated_names (e # es) = generated_names es"

text \<open>\<open>glGenTextures(1, &x)\<close>: the driver's next name is returned and the call recorded.\<close>

definition glGenTextures :: "('f, 'm) state \<Rightarrow> GLuint \<times> ('f, 'm) state" where
  "glGenTextures s =
     (let h = gl_supply s (length (generated_names (trace s)))
      in (h, emit (GlGenTextures h) s))"

text \<open>Access to the fixed-size array \<open>m_textureIDs\<close>: outside its bounds the C++ has
  undefined behaviour.\<close>

definition read_slot :: "('f, 'm) state \<Rightarrow> nat \<Rightarrow> fault + TEXTURE_INFO" where
  "read_slot s i =
     (if i < length (m_textureIDs s) then Inr (m_textureIDs s ! i) else Inl OutOfBounds)"

definition write_slot ::
  "nat \<Rightarrow> (TEXTURE_INFO \<Rightarrow> TEXTURE_INFO) \<Rightarrow> ('f, 'm) state \<Rightarrow> fault + ('f, 'm) state" where
  "write_slot i f s =
     (if i < length (m_textureIDs s)
      then Inr (s\<lparr>m_textureIDs := (m_textureIDs s)[i := f (m_textureIDs s ! i)]\<rparr>)
      else Inl OutOfBounds)"

text \<open>A call \<open>m_pShaderManager->f(...)\<close>: through a null pointer it is undefined
  behaviour.\<close>

definition shader_call ::
  "(('f, 'm) ShaderManager \<Rightarrow> ('f, 'm) ShaderManager) \<Rightarrow> ('f, 'm) state
     \<Rightarrow> fault + ('f, 'm) state" where
  "shader_call f s =
     (case m_pShaderManager s of
        None \<Rightarrow> Inl NullDereference
      | Some sh \<Rightarrow> Inr (s\<lparr>m_pShaderManager := Some (f sh)\<rparr>))"

text \<open>Modelled from the spec: the class \<open>ShaderManager\<close> is not among the sources. The
  spec describes it as a capability that "accepts named-uniform pushes" of the types
  bool, int, float, 2-vector, 3-vector, 4-vector and 4x4 matrix; each setter records the
  push of a value under the uniform's name.\<close>

definition push :: "string \<Rightarrow> ('f, 'm) uniform_value \<Rightarrow> ('f, 'm) ShaderManager
    \<Rightarrow> ('f, 'm) ShaderManager" where
  "push name v sh = sh @ [(name, v)]"

definition setMat4Value :: "string \<Rightarrow> 'm \<Rightarrow> ('f, 'm) ShaderManager \<Rightarrow> ('f, 'm) ShaderManager" where
  "setMat4Value name v = push name (UMat4 v)"

definition setIntValue :: "string \<Rightarrow> int \<Rightarrow> ('f, 'm) ShaderManager \<Rightarrow> ('f, 'm) ShaderManager" where
  "setIntValue name v = push name (UInt v)"

definition setFloatValue :: "string \<Rightarrow> 'f \<Rightarrow> ('f, 'm) ShaderManager \<Rightarrow> ('f, 'm) ShaderManager" where
  "setFloatValue name v = push name (UFloat v)"

definition setVec2Value :: "string \<Rightarrow> 'f vec2 \<Rightarrow> ('f, 'm) ShaderManager \<Rightarrow> ('f, 'm) ShaderManager" where
  "setVec2Value name v = push name (UVec2 v)"

definition setVec3Value :: "string \<Rightarrow> 'f vec3 \<Rightarrow> ('f, 'm) ShaderManager \<Rightarrow> ('f, 'm) ShaderManager" where
  "setVec3Value name v = push name (UVec3 v)"

definition setVec4Value :: "string \<Rightarrow> 'f vec4 \<Rightarrow> ('f, 'm) ShaderManager \<Rightarrow> ('f, 'm) ShaderManager" where
  "setVec4Value name v = push name (UVec4 v)"

definition setSampler2DValue :: "string \<Rightarrow> int \<Rightarrow> ('f, 'm) ShaderManager \<Rightarrow> ('f, 'm) ShaderManager" where
  "setSampler2DValue name v = push name (USampler2D v)"

text \<open>The value a uniform holds: the one pushed last under its name, if any.\<close>

definition uniform :: "('f, 'm) ShaderManager \<Rightarrow> string \<Rightarrow> ('f, 'm) uniform_value option" where
  "uniform sh name = map_of (rev sh) name"

text \<open>The global names of the anonymous namespace (lines 39-43).\<close>

definition g_ModelName :: string where "g_ModelName = ''model''"
definition g_ColorValueName :: string where "g_ColorValueName = ''objectColor''"
definition g_TextureValueName :: string where "g_TextureValueName = ''objectTexture''"
definition g_UseTextureName :: string where "g_UseTextureName = ''bUseTexture''"
definition g_UseLightingName :: string where "g_UseLightingName = ''bUseLighting''"

section \<open>The texture registry\<close>

text \<open>The constructor (lines 51-63): all 16 entries get the tag \<open>"/0"\<close> and the ID
  \<open>-1\<close> (which an unsigned 32-bit field stores as \<open>0xFFFFFFFF\<close>), and the count is 0. The
  material list is a default-constructed, empty vector. The mesh object is not modelled.
  \<open>supply\<close> and \<open>tr\<close> are the state of the OpenGL context at construction.\<close>

definition SceneManager ::
  "('f, 'm) ShaderManager option \<Rightarrow> (nat \<Rightarrow> GLuint) \<Rightarrow> event list \<Rightarrow> ('f, 'm) state" where
  "SceneManager pShaderManager supply tr =
     \<lparr>m_pShaderManager = pShaderManager,
      m_textureIDs = replicate 16 \<lparr>tex_tag = ''/0'', tex_ID = - 1\<rparr>,
      m_loadedTextures = 0,
      m_objectMaterials = [],
      gl_supply = supply,
      trace = tr\<rparr>"

text \<open>\<open>CreateGLTexture\<close> (lines 92-156). \<open>stbi_load\<close> is the image loader: for a file
  name it gives the decoded image, or \<open>None\<close> (a null pointer) when decoding fails.
  The branch for other channel counts returns \<open>false\<close> at once, after the texture was
  generated and bound. The registration writes \<open>m_textureIDs[m_loadedTextures]\<close> with no
  check of the index.\<close>

definition register_texture ::
  "GLuint \<Rightarrow> string \<Rightarrow> ('f, 'm) state \<Rightarrow> fault + (bool \<times> ('f, 'm) state)" where
  "register_texture textureID tag s0 =
     (let s1 = emit (GlGenerateMipmap GL_TEXTURE_2D) s0;
          s2 = emit StbiImageFree s1;
          s3 = emit (GlBindTexture GL_TEXTURE_2D 0) s2
      in and_then (write_slot (m_loadedTextures s3) (\<lambda>t. t\<lparr>tex_ID := textureID\<rparr>) s3) (\<lambda>s4.
         and_then (write_slot (m_loadedTextures s4) (\<lambda>t. t\<lparr>tex_tag := tag\<rparr>) s4) (\<lambda>s5.
         Inr (True, s5\<lparr>m_loadedTextures := m_loadedTextures s5 + 1\<rparr>))))"

definition CreateGLTexture ::
  "(string \<Rightarrow> image option) \<Rightarrow> string \<Rightarrow> string \<Rightarrow> ('f, 'm) state
     \<Rightarrow> fault + (bool \<times> ('f, 'm) state)" where
  "CreateGLTexture stbi_load filename tag s =
     (let s1 = emit (StbiSetFlipVerticallyOnLoad True) s;
          s2 = emit (StbiLoad filename) s1
      in case stbi_load filename of
           Some img \<Rightarrow>
             (let (textureID, s3) = glGenTextures s2;
                  s4 = emit (GlBindTexture GL_TEXTURE_2D textureID) s3;
                  s5 = emit (GlTexParameteri GL_TEXTURE_2D GL_TEXTURE_WRAP_S GL_REPEAT) s4;
                  s6 = emit (GlTexParameteri GL_TEXTURE_2D GL_TEXTURE_WRAP_T GL_REPEAT) s5;
                  s7 = emit (GlTexParameteri GL_TEXTURE_2D GL_TEXTURE_MIN_FILTER GL_LINEAR) s6;
                  s8 = emit (GlTexParameteri GL_TEXTURE_2D GL_TEXTURE_MAG_FILTER GL_LINEAR) s7
              in if colorChannels img = 3 then
                   register_texture textureID tag
                     (emit (GlTexImage2D GL_TEXTURE_2D GL_RGB8 (img_width img) (img_height img)
                        GL_RGB) s8)
                 else if colorChannels img = 4 then
                   register_texture textureID tag
                     (emit (GlTexImage2D GL_TEXTURE_2D GL_RGBA8 (img_width img) (img_height img)
                        GL_RGBA) s8)
                 else Inr (False, s8))
         | None \<Rightarrow> Inr (False, s2))"

text \<open>\<open>BindGLTextures\<close> (lines 164-172): the loop over \<open>i < m_loadedTextures\<close>, from
  \<open>i\<close> on.\<close>

function BindGLTextures_for :: "nat \<Rightarrow> ('f, 'm) state \<Rightarrow> fault + ('f, 'm) state" where
  "BindGLTextures_for i s =
     (if i < m_loadedTextures s then
        and_then (read_slot s i) (\<lambda>t.
          BindGLTextures_for (i + 1)
            (emit (GlBindTexture GL_TEXTURE_2D (tex_ID t)) (emit (GlActiveTexture i) s)))
      else Inr s)"
  by pat_completeness auto
termination
  by (relation "measure (\<lambda>(i, s). m_loadedTextures s - i)") (auto simp: emit_def)

definition BindGLTextures :: "('f, 'm) state \<Rightarrow> fault + ('f, 'm) state" where
  "BindGLTextures s = BindGLTextures_for 0 s"

text \<open>\<open>DestroyGLTextures\<close> (lines 180-186): for every loaded slot the source calls
  \<open>glGenTextures(1, &m_textureIDs[i].ID)\<close>, which stores a newly generated name in the
  slot. There is no call of \<open>glDeleteTextures\<close> and no assignment to
  \<open>m_loadedTextures\<close>.\<close>

function DestroyGLTextures_for :: "nat \<Rightarrow> ('f, 'm) state \<Rightarrow> fault + ('f, 'm) state" where
  "DestroyGLTextures_for i s =
     (if i < m_loadedTextures s then
        (let (h, s1) = glGenTextures s
         in case write_slot i (\<lambda>t. t\<lparr>tex_ID := h\<rparr>) s1 of
              Inl e \<Rightarrow> Inl e
            | Inr s2 \<Rightarrow> DestroyGLTextures_for (i + 1) s2)
      else Inr s)"
  by pat_completeness auto
termination
  by (relation "measure (\<lambda>(i, s). m_loadedTextures s - i)")
     (auto simp: emit_def glGenTextures_def write_slot_def Let_def split: if_splits)

definition DestroyGLTextures :: "('f, 'm) state \<Rightarrow> fault + ('f, 'm) state" where
  "DestroyGLTextures s = DestroyGLTextures_for 0 s"

text \<open>\<open>FindTextureID\<close> (lines 194-212). The loop state is the three locals
  \<open>(textureID, index, bFound)\<close>. The assignment \<open>textureID = m_textureIDs[index].ID\<close>
  converts the unsigned 32-bit ID to \<open>int\<close>: the same 32 bits read as two's
  complement.\<close>

function FindTextureID_while ::
  "('f, 'm) state \<Rightarrow> string \<Rightarrow> int \<times> nat \<times> bool \<Rightarrow> fault + (int \<times> nat \<times> bool)" where
  "FindTextureID_while s tag (textureID, index, bFound) =
     (if index < m_loadedTextures s \<and> bFound = False then
        and_then (read_slot s index) (\<lambda>t.
          if tex_tag t = tag
          then FindTextureID_while s tag (sint (tex_ID t), index, True)
          else FindTextureID_while s tag (textureID, index + 1, bFound))
      else Inr (textureID, index, bFound))"
  by pat_completeness auto
termination
  by (relation "measure (\<lambda>(s, tag, textureID, index, bFound).
        2 * (m_loadedTextures s - index) + (if bFound then 0 else 1))") auto

definition FindTextureID :: "string \<Rightarrow> ('f, 'm) state \<Rightarrow> fault + int" where
  "FindTextureID tag s =
     and_then (FindTextureID_while s tag (- 1, 0, False)) (\<lambda>(textureID, index, bFound).
       Inr textureID)"

text \<open>\<open>FindTextureSlot\<close> (lines 220-238): the same loop, keeping the index.\<close>

function FindTextureSlot_while ::
  "('f, 'm) state \<Rightarrow> string \<Rightarrow> int \<times> nat \<times> bool \<Rightarrow> fault + (int \<times> nat \<times> bool)" where
  "FindTextureSlot_while s tag (textureSlot, index, bFound) =
     (if index < m_loadedTextures s \<and> bFound = False then
        and_then (read_slot s index) (\<lambda>t.
          if tex_tag t = tag
          then FindTextureSlot_while s tag (int index, index, True)
          else FindTextureSlot_while s tag (textureSlot, index + 1, bFound))
      else Inr (textureSlot, index, bFound))"
  by pat_completeness auto
termination
  by (relation "measure (\<lambda>(s, tag, textureSlot, index, bFound).
        2 * (m_loadedTextures s - index) + (if bFound then 0 else 1))") auto

definition FindTextureSlot :: "string \<Rightarrow> ('f, 'm) state \<Rightarrow> fault + int" where
  "FindTextureSlot tag s =
     and_then (FindTextureSlot_while s tag (- 1, 0, False)) (\<lambda>(textureSlot, index, bFound).
       Inr textureSlot)"

section \<open>The material registry\<close>

text \<open>\<open>FindMaterial\<close> (lines 246-271). \<open>material\<close> is the caller's object, passed by
  reference: the function returns its status and the object as it leaves it. The loop
  state is \<open>(index, bFound, material)\<close>. After the loop the source returns \<open>true\<close>,
  whatever \<open>bFound\<close> is.\<close>

function FindMaterial_while ::
  "'f OBJECT_MATERIAL list \<Rightarrow> string \<Rightarrow> nat \<times> bool \<times> 'f OBJECT_MATERIAL
     \<Rightarrow> nat \<times> bool \<times> 'f OBJECT_MATERIAL" where
  "FindMaterial_while ms tag (index, bFound, material) =
     (if index < length ms \<and> bFound = False then
        (if mat_tag (ms ! index) = tag
         then FindMaterial_while ms tag
                (index, True,
                 material\<lparr>diffuseColor := diffuseColor (ms ! index),
                          specularColor := specularColor (ms ! index),
                          shininess := shininess (ms ! index)\<rparr>)
         else FindMaterial_while ms tag (index + 1, bFound, material))
      else (index, bFound, material))"
  by pat_completeness auto
termination
  by (relation "measure (\<lambda>(ms, tag, index, bFound, material).
        2 * (length ms - index) + (if bFound then 0 else 1))") auto

definition FindMaterial ::
  "string \<Rightarrow> 'f OBJECT_MATERIAL \<Rightarrow> ('f, 'm) state \<Rightarrow> bool \<times> 'f OBJECT_MATERIAL" where
  "FindMaterial tag material s =
     (if length (m_objectMaterials s) = 0 then (False, material)
      else (let (index, bFound, material') =
                  FindMaterial_while (m_objectMaterials s) tag (0, False, material)
            in (True, material')))"

section \<open>The shader state dispatcher\<close>

text \<open>\<open>SetTransformations\<close> (lines 279-309). The product is written as the source's
  expression \<open>translation * rotationZ * rotationY * rotationX * scale\<close> associates it:
  from the left.\<close>

definition SetTransformations ::
  "('f, 'm) glm \<Rightarrow> 'f vec3 \<Rightarrow> 'f \<Rightarrow> 'f \<Rightarrow> 'f \<Rightarrow> 'f vec3 \<Rightarrow> ('f, 'm) state
     \<Rightarrow> fault + ('f, 'm) state" where
  "SetTransformations G scaleXYZ XrotationDegrees YrotationDegrees ZrotationDegrees
       positionXYZ s =
     (let scale = glm_scale G scaleXYZ;
          rotationX = glm_rotate G (glm_radians G XrotationDegrees) (lit_1 G, lit_0 G, lit_0 G);
          rotationY = glm_rotate G (glm_radians G YrotationDegrees) (lit_0 G, lit_1 G, lit_0 G);
          rotationZ = glm_rotate G (glm_radians G ZrotationDegrees) (lit_0 G, lit_0 G, lit_1 G);
          translation = glm_translate G positionXYZ;
          modelView =
            glm_mul G (glm_mul G (glm_mul G (glm_mul G translation rotationZ) rotationY)
              rotationX) scale
      in if m_pShaderManager s \<noteq> None
         then shader_call (setMat4Value g_ModelName modelView) s
         else Inr s)"

text \<open>\<open>SetShaderColor\<close> (lines 317-336). \<open>setIntValue(g_UseTextureName, false)\<close> passes
  the \<open>bool\<close> as the \<open>int\<close> 0.\<close>

definition SetShaderColor ::
  "'f \<Rightarrow> 'f \<Rightarrow> 'f \<Rightarrow> 'f \<Rightarrow> ('f, 'm) state \<Rightarrow> fault + ('f, 'm) state" where
  "SetShaderColor redColorValue greenColorValue blueColorValue alphaValue s =
     (let currentColor = (redColorValue, greenColorValue, blueColorValue, alphaValue)
      in if m_pShaderManager s \<noteq> None then
           and_then (shader_call (setIntValue g_UseTextureName 0) s) (\<lambda>s1.
             shader_call (setVec4Value g_ColorValueName currentColor) s1)
         else Inr s)"

text \<open>\<open>SetShaderTexture\<close> (lines 344-355): the slot found for the tag, or \<open>-1\<close>, is
  pushed as the sampler value.\<close>

definition SetShaderTexture :: "string \<Rightarrow> ('f, 'm) state \<Rightarrow> fault + ('f, 'm) state" where
  "SetShaderTexture textureTag s =
     (if m_pShaderManager s \<noteq> None then
        and_then (shader_call (setIntValue g_UseTextureName 1) s) (\<lambda>s1.
        and_then (FindTextureSlot textureTag s1) (\<lambda>textureID.
          shader_call (setSampler2DValue g_TextureValueName textureID) s1))
      else Inr s)"

text \<open>\<open>SetTextureUVScale\<close> (lines 363-369).\<close>

definition SetTextureUVScale :: "'f \<Rightarrow> 'f \<Rightarrow> ('f, 'm) state \<Rightarrow> fault + ('f, 'm) state" where
  "SetTextureUVScale u v s =
     (if m_pShaderManager s \<noteq> None
      then shader_call (setVec2Value ''UVscale'' (u, v)) s
      else Inr s)"

text \<open>\<open>SetShaderMaterial\<close> (lines 377-393). The local \<open>OBJECT_MATERIAL material\<close> is
  declared without an initialiser; what it holds before \<open>FindMaterial\<close> writes to it is
  the parameter \<open>uninitialised\<close>. The three pushes go through \<open>m_pShaderManager\<close> with no
  null check.\<close>

definition SetShaderMaterial ::
  "'f OBJECT_MATERIAL \<Rightarrow> string \<Rightarrow> ('f, 'm) state \<Rightarrow> fault + ('f, 'm) state" where
  "SetShaderMaterial uninitialised materialTag s =
     (if length (m_objectMaterials s) > 0 then
        (let (bReturn, material) = FindMaterial materialTag uninitialised s
         in if bReturn = True then
              and_then (shader_call
                  (setVec3Value ''material.diffuseColor'' (diffuseColor material)) s) (\<lambda>s1.
              and_then (shader_call
                  (setVec3Value ''material.specularColor'' (specularColor material)) s1) (\<lambda>s2.
              shader_call (setFloatValue ''material.shininess'' (shininess material)) s2))
            else Inr s)
      else Inr s)"

section \<open>Scene preparation\<close>

text \<open>\<open>LoadSceneTextures\<close> (lines 573-623): eleven calls of \<open>CreateGLTexture\<close>, whose
  results are assigned to \<open>bReturn\<close> and not looked at, then \<open>BindGLTextures\<close>.\<close>

definition LoadSceneTextures ::
  "(string \<Rightarrow> image option) \<Rightarrow> ('f, 'm) state \<Rightarrow> fault + ('f, 'm) state" where
  "LoadSceneTextures stbi_load s0 =
     and_then (CreateGLTexture stbi_load ''textures/dark_wood_floor.JPG'' ''floor'' s0)
       (\<lambda>(bReturn, s1).
     and_then (CreateGLTexture stbi_load ''textures/shiplap.JPG'' ''shiplap'' s1)
       (\<lambda>(bReturn, s2).
     and_then (CreateGLTexture stbi_load ''textures/bricks.JPG'' ''brick'' s2)
       (\<lambda>(bReturn, s3).
     and_then (CreateGLTexture stbi_load ''textures/Wood_mantle.JPG'' ''mantle'' s3)
       (\<lambda>(bReturn, s4).
     and_then (CreateGLTexture stbi_load ''textures/black_metal.JPG'' ''metal'' s4)
       (\<lambda>(bReturn, s5).
     and_then (CreateGLTexture stbi_load ''textures/black_metal2.JPG'' ''metal2'' s5)
       (\<lambda>(bReturn, s6).
     and_then (CreateGLTexture stbi_load ''textures/pine_bark.JPG'' ''bark'' s6)
       (\<lambda>(bReturn, s7).
     and_then (CreateGLTexture stbi_load ''textures/Tree_end.JPG'' ''tree_end'' s7)
       (\<lambda>(bReturn, s8).
     and_then (CreateGLTexture stbi_load ''textures/rusticwood.JPG'' ''rusticwood'' s8)
       (\<lambda>(bReturn, s9).
     and_then (CreateGLTexture stbi_load ''textures/Leaf.JPG'' ''leaf'' s9)
       (\<lambda>(bReturn, s10).
     and_then (CreateGLTexture stbi_load ''textures/BLUEY.JPG'' ''cartoon'' s10)
       (\<lambda>(bReturn, s11).
     BindGLTextures s11)))))))))))"

section \<open>Notions used to state the properties\<close>

text \<open>A sequence of calls \<open>CreateGLTexture(filename, tag)\<close>, made one after the other by
  a caller that goes on whatever each call returns. The result lists what the calls
  returned.\<close>

fun CreateGLTexture_calls ::
  "(string \<Rightarrow> image option) \<Rightarrow> (string \<times> string) list \<Rightarrow> ('f, 'm) state
     \<Rightarrow> fault + (bool list \<times> ('f, 'm) state)" where
  "CreateGLTexture_calls stbi_load [] s = Inr ([], s)"
| "CreateGLTexture_calls stbi_load ((filename, tag) # calls) s =
     (case CreateGLTexture stbi_load filename tag s of
        Inl e \<Rightarrow> Inl e
      | Inr (bReturn, s1) \<Rightarrow>
          (case CreateGLTexture_calls stbi_load calls s1 of
             Inl e \<Rightarrow> Inl e
           | Inr (rs, s2) \<Rightarrow> Inr (bReturn # rs, s2)))"

text \<open>The position of the first element of a list that equals \<open>x\<close> (the length of the
  list when there is none).\<close>

fun first_index :: "'a list \<Rightarrow> 'a \<Rightarrow> nat" where
  "first_index [] x = 0"
| "first_index (y # ys) x = (if y = x then 0 else Suc (first_index ys x))"

text \<open>The tags of the loaded slots, in slot order.\<close>

definition loaded_tags :: "('f, 'm) state \<Rightarrow> string list" where
  "loaded_tags s = map tex_tag (take (m_loadedTextures s) (m_textureIDs s))"

text \<open>The shape every state has that the constructor and fault-free calls produce: the
  array has its 16 entries and the count is within it.\<close>

definition registry_ok :: "('f, 'm) state \<Rightarrow> bool" where
  "registry_ok s = (length (m_textureIDs s) = 16 \<and> m_loadedTextures s \<le> 16)"

text \<open>The number of image-load events in a trace.\<close>

fun load_events :: "event list \<Rightarrow> nat" where
  "load_events [] = 0"
| "load_events (StbiLoad f # es) = Suc (load_events es)"
| "load_events (e # es) = load_events es"

text \<open>A file whose decoding succeeds with three or four colour channels: the calls of
  \<open>CreateGLTexture\<close> on it that reach the registration.\<close>

definition decodes :: "(string \<Rightarrow> image option) \<Rightarrow> string \<Rightarrow> bool" where
  "decodes stbi_load filename =
     (case stbi_load filename of
        None \<Rightarrow> False
      | Some img \<Rightarrow> colorChannels img = 3 \<or> colorChannels img = 4)"

text \<open>The file names and tags of the eleven calls in \<open>LoadSceneTextures\<close>, in order.\<close>

definition scene_textures :: "(string \<times> string) list" where
  "scene_textures =
     [(''textures/dark_wood_floor.JPG'', ''floor''),
      (''textures/shiplap.JPG'', ''shiplap''),
      (''textures/bricks.JPG'', ''brick''),
      (''textures/Wood_mantle.JPG'', ''mantle''),
      (''textures/black_metal.JPG'', ''metal''),
      (''textures/black_metal2.JPG'', ''metal2''),
      (''textures/pine_bark.JPG'', ''bark''),
      (''textures/Tree_end.JPG'', ''tree_end''),
      (''textures/rusticwood.JPG'', ''rusticwood''),
      (''textures/Leaf.JPG'', ''leaf''),
      (''textures/BLUEY.JPG'', ''cartoon'')]"

text \<open>What a sequence of calls \<open>CreateGLTexture(filename, tag)\<close> leaves in the slots, in
  call order, when \<open>g\<close> names were generated before it: a call whose file does not decode
  generates no name and registers nothing; a call whose image has another channel count
  than 3 or 4 generates a name and registers nothing; every other call registers its tag
  with the name generated in it.\<close>

fun recorded ::
  "(string \<Rightarrow> image option) \<Rightarrow> (nat \<Rightarrow> GLuint) \<Rightarrow> nat \<Rightarrow> (string \<times> string) list
     \<Rightarrow> TEXTURE_INFO list" where
  "recorded stbi_load names g [] = []"
| "recorded stbi_load names g ((filename, tag) # calls) =
     (case stbi_load filename of
        None \<Rightarrow> recorded stbi_load names g calls
      | Some img \<Rightarrow>
          if colorChannels img = 3 \<or> colorChannels img = 4
          then \<lparr>tex_tag = tag, tex_ID = names g\<rparr> # recorded stbi_load names (Suc g) calls
          else recorded stbi_load names (Suc g) calls)"

text \<open>The tags of the defined materials, in order, and the three assignments by which
  \<open>FindMaterial\<close> copies a stored record into the caller's object.\<close>

definition material_tags :: "('f, 'm) state \<Rightarrow> string list" where
  "material_tags s = map mat_tag (m_objectMaterials s)"

definition copy_material :: "'f OBJECT_MATERIAL \<Rightarrow> 'f OBJECT_MATERIAL \<Rightarrow> 'f OBJECT_MATERIAL" where
  "copy_material src material =
     material\<lparr>diffuseColor := diffuseColor src, specularColor := specularColor src,
       shininess := shininess src\<rparr>"

section \<open>Concrete inputs\<close>

text \<open>
  Inputs on which the model is run. A \<open>float\<close> is written as the real number its literal
  denotes. Two OpenGL drivers: one hands out the names 1, 2, 3, ...; the other starts at
  the largest name \<open>0xFFFFFFFF\<close> and counts down (every name it hands out is non-zero and
  was not in use, which is all that OpenGL promises of \<open>glGenTextures\<close>). Two image
  loaders: one decodes every file to a 64x64 RGB image, the other to a 64x64 image with a
  single channel.
\<close>

definition sequential_names :: "nat \<Rightarrow> GLuint" where
  "sequential_names n = word_of_nat n + 1"

definition descending_names :: "nat \<Rightarrow> GLuint" where
  "descending_names n = - 1 - word_of_nat n"

definition rgb_image :: image where
  "rgb_image = \<lparr>img_width = 64, img_height = 64, colorChannels = 3\<rparr>"

definition grey_image :: image where
  "grey_image = \<lparr>img_width = 64, img_height = 64, colorChannels = 1\<rparr>"

definition every_file_rgb :: "string \<Rightarrow> image option" where
  "every_file_rgb filename = Some rgb_image"

definition every_file_grey :: "string \<Rightarrow> image option" where
  "every_file_grey filename = Some grey_image"

text \<open>An instance of the GLM parameters: a matrix is the formal product of the elementary
  transforms it was built from, so that two products are equal only if they have the
  same factors in the same order; \<open>glm::radians\<close> is the conversion over the reals.\<close>

datatype 'f transform = Scale "'f vec3" | Rotate 'f "'f vec3" | Translate "'f vec3"

definition formal_glm :: "(real, real transform list) glm" where
  "formal_glm =
     \<lparr>glm_scale = (\<lambda>v. [Scale v]),
      glm_rotate = (\<lambda>angle axis. [Rotate angle axis]),
      glm_translate = (\<lambda>v. [Translate v]),
      glm_radians = (\<lambda>degrees. degrees * pi / 180),
      glm_mul = (\<lambda>a b. a @ b),
      lit_0 = 0,
      lit_1 = 1\<rparr>"

text \<open>A newly constructed \<open>SceneManager\<close> with a null shader manager.\<close>

definition new_manager :: "(real, real transform list) state" where
  "new_manager = SceneManager None sequential_names []"

text \<open>The first three materials of \<open>DefineObjectMaterials\<close> (lines 404-426).\<close>

definition goldMaterial :: "real OBJECT_MATERIAL" where
  "goldMaterial = \<lparr>diffuseColor = (0.4, 0.4, 0.4), specularColor = (0.7, 0.7, 0.6),
     shininess = 52.0, mat_tag = ''metal''\<rparr>"

definition woodMaterial :: "real OBJECT_MATERIAL" where
  "woodMaterial = \<lparr>diffuseColor = (0.2, 0.2, 0.3), specularColor = (0.0, 0.0, 0.0),
     shininess = 0.1, mat_tag = ''wood''\<rparr>"

definition glassMaterial :: "real OBJECT_MATERIAL" where
  "glassMaterial = \<lparr>diffuseColor = (0.2, 0.2, 0.2), specularColor = (1.0, 1.0, 1.0),
     shininess = 95.0, mat_tag = ''glass''\<rparr>"

text \<open>A registry with the textures \<open>floor\<close>, \<open>brick\<close>, \<open>metal\<close> in slots 0, 1, 2 under
  the names 1, 2, 3.\<close>

definition three_textures :: "(real, real transform list) state" where
  "three_textures = new_manager
     \<lparr>m_textureIDs :=
        [\<lparr>tex_tag = ''floor'', tex_ID = 1\<rparr>, \<lparr>tex_tag = ''brick'', tex_ID = 2\<rparr>,
         \<lparr>tex_tag = ''metal'', tex_ID = 3\<rparr>] @ replicate 13 \<lparr>tex_tag = ''/0'', tex_ID = - 1\<rparr>,
      m_loadedTextures := 3\<rparr>"

text \<open>The registry after one texture \<open>a\<close> was loaded under the name \<open>0xFFFFFFFF\<close>.\<close>

definition max_name_registry :: "(real, real transform list) state" where
  "max_name_registry = (SceneManager None descending_names [])
     \<lparr>m_textureIDs :=
        \<lparr>tex_tag = ''a'', tex_ID = - 1\<rparr> # replicate 15 \<lparr>tex_tag = ''/0'', tex_ID = - 1\<rparr>,
      m_loadedTextures := 1\<rparr>"

text \<open>The state of a new \<open>SceneManager\<close>, on the driver that counts down from
  \<open>0xFFFFFFFF\<close>, after the one call \<open>CreateGLTexture("a.jpg", "a")\<close> on an RGB image.\<close>

definition one_load_max_name :: "(real, real transform list) state" where
  "one_load_max_name =
     \<lparr>m_pShaderManager = None,
      m_textureIDs =
        \<lparr>tex_tag = ''a'', tex_ID = - 1\<rparr> # replicate 15 \<lparr>tex_tag = ''/0'', tex_ID = - 1\<rparr>,
      m_loadedTextures = 1,
      m_objectMaterials = [],
      gl_supply = descending_names,
      trace =
        [StbiSetFlipVerticallyOnLoad True,
         StbiLoad ''a.jpg'',
         GlGenTextures (- 1),
         GlBindTexture GL_TEXTURE_2D (- 1),
         GlTexParameteri GL_TEXTURE_2D GL_TEXTURE_WRAP_S GL_REPEAT,
         GlTexParameteri GL_TEXTURE_2D GL_TEXTURE_WRAP_T GL_REPEAT,
         GlTexParameteri GL_TEXTURE_2D GL_TEXTURE_MIN_FILTER GL_LINEAR,
         GlTexParameteri GL_TEXTURE_2D GL_TEXTURE_MAG_FILTER GL_LINEAR,
         GlTexImage2D GL_TEXTURE_2D GL_RGB8 64 64 GL_RGB,
         GlGenerateMipmap GL_TEXTURE_2D,
         StbiImageFree,
         GlBindTexture GL_TEXTURE_2D 0]\<rparr>"

section \<open>Auxiliary facts\<close>

declare FindMaterial_while.simps [simp del]
declare FindTextureID_while.simps [simp del]
declare FindTextureSlot_while.simps [simp del]
declare BindGLTextures_for.simps [simp del]
declare DestroyGLTextures_for.simps [simp del]

lemma SceneManager_fields [simp]:
  "m_pShaderManager (SceneManager p names tr) = p"
  "length (m_textureIDs (SceneManager p names tr)) = 16"
  "m_loadedTextures (SceneManager p names tr) = 0"
  "m_objectMaterials (SceneManager p names tr) = []"
  "gl_supply (SceneManager p names tr) = names"
  "trace (SceneManager p names tr) = tr"
  by (simp_all add: SceneManager_def)

lemma first_index_less_iff: "first_index xs x < length xs \<longleftrightarrow> x \<in> set xs"
  by (induction xs) auto

lemma generated_names_append:
  "generated_names (xs @ ys) = generated_names xs @ generated_names ys"
  by (induction xs rule: generated_names.induct) auto

lemma generated_names_map: "generated_names (map GlGenTextures hs) = hs"
  by (induction hs) auto

lemma load_events_append: "load_events (xs @ ys) = load_events xs + load_events ys"
  by (induction xs rule: load_events.induct) auto

lemma TEXTURE_INFO_overwrite:
  "(x :: TEXTURE_INFO)\<lparr>tex_ID := h, tex_tag := t\<rparr> = \<lparr>tex_tag = t, tex_ID = h\<rparr>"
  by (cases x) simp

lemma decodes_rgb [simp]: "decodes every_file_rgb filename"
  by (simp add: decodes_def every_file_rgb_def rgb_image_def)

subsection \<open>The lookup loops\<close>

lemma length_loaded_tags:
  "m_loadedTextures s \<le> length (m_textureIDs s) \<Longrightarrow> length (loaded_tags s) = m_loadedTextures s"
  by (simp add: loaded_tags_def)

lemma drop_loaded_tags:
  assumes "i < m_loadedTextures s" "m_loadedTextures s \<le> length (m_textureIDs s)"
  shows "drop i (loaded_tags s) = tex_tag (m_textureIDs s ! i) # drop (Suc i) (loaded_tags s)"
proof -
  have "i < length (loaded_tags s)" using assms by (simp add: length_loaded_tags)
  then have "drop i (loaded_tags s) = loaded_tags s ! i # drop (Suc i) (loaded_tags s)"
    by (simp add: Cons_nth_drop_Suc)
  then show ?thesis using assms by (simp add: loaded_tags_def)
qed

text \<open>The slot loop started at \<open>index = i\<close> with nothing found yet: it stops at the first
  slot from \<open>i\<close> on whose tag matches, or runs to the count.\<close>

lemma FindTextureSlot_while_from:
  assumes "m_loadedTextures s \<le> length (m_textureIDs s)" and "i \<le> m_loadedTextures s"
  shows "FindTextureSlot_while s tag (r, i, False) =
     (let k = first_index (drop i (loaded_tags s)) tag
      in if i + k < m_loadedTextures s then Inr (int (i + k), i + k, True)
         else Inr (r, m_loadedTextures s, False))"
  using assms
proof (induction "m_loadedTextures s - i" arbitrary: i r)
  case 0
  then have "i = m_loadedTextures s" by simp
  then show ?case
    using "0.prems" by (subst FindTextureSlot_while.simps) (simp add: length_loaded_tags)
next
  case (Suc d)
  then have lt: "i < m_loadedTextures s" by simp
  have rd: "read_slot s i = Inr (m_textureIDs s ! i)"
    using lt Suc.prems by (simp add: read_slot_def)
  note dr = drop_loaded_tags [OF lt Suc.prems(1)]
  show ?case
  proof (cases "tex_tag (m_textureIDs s ! i) = tag")
    case True
    have "FindTextureSlot_while s tag (r, i, False) = FindTextureSlot_while s tag (int i, i, True)"
      using lt rd True by (subst FindTextureSlot_while.simps) (simp add: and_then_def)
    also have "\<dots> = Inr (int i, i, True)"
      by (subst FindTextureSlot_while.simps) simp
    finally show ?thesis using lt True dr by simp
  next
    case False
    have "FindTextureSlot_while s tag (r, i, False) = FindTextureSlot_while s tag (r, Suc i, False)"
      using lt rd False by (subst FindTextureSlot_while.simps) (simp add: and_then_def)
    moreover have "d = m_loadedTextures s - Suc i" using Suc.hyps(2) by simp
    ultimately show ?thesis
      using Suc.hyps(1) [of "Suc i" r] Suc.prems(1) lt False dr by (simp add: Let_def)
  qed
qed

lemma FindTextureID_while_from:
  assumes "m_loadedTextures s \<le> length (m_textureIDs s)" and "i \<le> m_loadedTextures s"
  shows "FindTextureID_while s tag (r, i, False) =
     (let k = first_index (drop i (loaded_tags s)) tag
      in if i + k < m_loadedTextures s
         then Inr (sint (tex_ID (m_textureIDs s ! (i + k))), i + k, True)
         else Inr (r, m_loadedTextures s, False))"
  using assms
proof (induction "m_loadedTextures s - i" arbitrary: i r)
  case 0
  then have "i = m_loadedTextures s" by simp
  then show ?case
    using "0.prems" by (subst FindTextureID_while.simps) (simp add: length_loaded_tags)
next
  case (Suc d)
  then have lt: "i < m_loadedTextures s" by simp
  have rd: "read_slot s i = Inr (m_textureIDs s ! i)"
    using lt Suc.prems by (simp add: read_slot_def)
  note dr = drop_loaded_tags [OF lt Suc.prems(1)]
  show ?case
  proof (cases "tex_tag (m_textureIDs s ! i) = tag")
    case True
    have "FindTextureID_while s tag (r, i, False)
        = FindTextureID_while s tag (sint (tex_ID (m_textureIDs s ! i)), i, True)"
      using lt rd True by (subst FindTextureID_while.simps) (simp add: and_then_def)
    also have "\<dots> = Inr (sint (tex_ID (m_textureIDs s ! i)), i, True)"
      by (subst FindTextureID_while.simps) simp
    finally show ?thesis using lt True dr by simp
  next
    case False
    have "FindTextureID_while s tag (r, i, False) = FindTextureID_while s tag (r, Suc i, False)"
      using lt rd False by (subst FindTextureID_while.simps) (simp add: and_then_def)
    moreover have "d = m_loadedTextures s - Suc i" using Suc.hyps(2) by simp
    ultimately show ?thesis
      using Suc.hyps(1) [of "Suc i" r] Suc.prems(1) lt False dr by (simp add: Let_def)
  qed
qed

lemma FindTextureSlot_eq:
  assumes "m_loadedTextures s \<le> length (m_textureIDs s)"
  shows "FindTextureSlot tag s =
     Inr (if tag \<in> set (loaded_tags s) then int (first_index (loaded_tags s) tag) else - 1)"
  using assms first_index_less_iff [of "loaded_tags s" tag]
  by (simp add: FindTextureSlot_def FindTextureSlot_while_from and_then_def Let_def
        length_loaded_tags)

lemma FindTextureID_eq:
  assumes "m_loadedTextures s \<le> length (m_textureIDs s)"
  shows "FindTextureID tag s =
     Inr (if tag \<in> set (loaded_tags s)
          then sint (tex_ID (m_textureIDs s ! first_index (loaded_tags s) tag)) else - 1)"
  using assms first_index_less_iff [of "loaded_tags s" tag]
  by (simp add: FindTextureID_def FindTextureID_while_from and_then_def Let_def
        length_loaded_tags)

text \<open>The material loop, in the same way.\<close>

lemma FindMaterial_while_from:
  assumes "i \<le> length ms"
  shows "FindMaterial_while ms tag (i, False, material) =
     (let k = first_index (drop i (map mat_tag ms)) tag
      in if i + k < length ms then (i + k, True, copy_material (ms ! (i + k)) material)
         else (length ms, False, material))"
  using assms
proof (induction "length ms - i" arbitrary: i)
  case 0
  then show ?case by (subst FindMaterial_while.simps) simp
next
  case (Suc d)
  then have lt: "i < length ms" by simp
  then have dr: "drop i (map mat_tag ms) = mat_tag (ms ! i) # drop (Suc i) (map mat_tag ms)"
    by (metis Cons_nth_drop_Suc length_map nth_map)
  show ?case
  proof (cases "mat_tag (ms ! i) = tag")
    case True
    have "FindMaterial_while ms tag (i, False, material)
        = FindMaterial_while ms tag (i, True, copy_material (ms ! i) material)"
      using lt True by (subst FindMaterial_while.simps) (simp add: copy_material_def)
    also have "\<dots> = (i, True, copy_material (ms ! i) material)"
      by (subst FindMaterial_while.simps) simp
    finally show ?thesis using lt True dr by simp
  next
    case False
    have "FindMaterial_while ms tag (i, False, material)
        = FindMaterial_while ms tag (Suc i, False, material)"
      using lt False by (subst FindMaterial_while.simps) simp
    moreover have "d = length ms - Suc i" using Suc.hyps(2) by simp
    ultimately show ?thesis
      using Suc.hyps(1) [of "Suc i"] lt False dr by (simp add: Let_def)
  qed
qed

text \<open>What \<open>FindMaterial\<close> does in each of its three situations.\<close>

lemma FindMaterial_empty:
  "m_objectMaterials s = [] \<Longrightarrow> FindMaterial tag material s = (False, material)"
  by (simp add: FindMaterial_def)

lemma FindMaterial_found:
  assumes "tag \<in> set (material_tags s)"
  shows "FindMaterial tag material s =
    (True, copy_material (m_objectMaterials s ! first_index (material_tags s) tag) material)"
proof -
  have ne: "m_objectMaterials s \<noteq> []" using assms by (auto simp: material_tags_def)
  have "first_index (material_tags s) tag < length (m_objectMaterials s)"
    using assms first_index_less_iff [of "material_tags s" tag] by (simp add: material_tags_def)
  then show ?thesis
    using ne by (simp add: FindMaterial_def FindMaterial_while_from Let_def material_tags_def)
qed

lemma FindMaterial_unmatched:
  assumes "m_objectMaterials s \<noteq> []" and "tag \<notin> set (material_tags s)"
  shows "FindMaterial tag material s = (True, material)"
proof -
  have "\<not> first_index (material_tags s) tag < length (m_objectMaterials s)"
    using assms(2) first_index_less_iff [of "material_tags s" tag] by (simp add: material_tags_def)
  then show ?thesis
    using assms(1) by (simp add: FindMaterial_def FindMaterial_while_from Let_def material_tags_def)
qed

subsection \<open>Loading textures\<close>

text \<open>A call whose decoding succeeds with 3 or 4 channels, made while the count is inside
  the array, registers the name the driver hands out in the slot at the count.\<close>

lemma CreateGLTexture_success:
  assumes "decodes stbi_load filename" and "m_loadedTextures s < length (m_textureIDs s)"
  shows "\<exists>s'. CreateGLTexture stbi_load filename tag s = Inr (True, s')
    \<and> m_textureIDs s' = (m_textureIDs s)[m_loadedTextures s :=
         \<lparr>tex_tag = tag, tex_ID = gl_supply s (length (generated_names (trace s)))\<rparr>]
    \<and> m_loadedTextures s' = Suc (m_loadedTextures s)
    \<and> gl_supply s' = gl_supply s
    \<and> generated_names (trace s') =
         generated_names (trace s) @ [gl_supply s (length (generated_names (trace s)))]"
proof -
  obtain img where img: "stbi_load filename = Some img"
    and ch: "colorChannels img = 3 \<or> colorChannels img = 4"
    using assms(1) by (auto simp: decodes_def split: option.splits)
  show ?thesis
    using img ch assms(2)
    by (auto simp: CreateGLTexture_def register_texture_def glGenTextures_def emit_def
          Let_def write_slot_def and_then_def generated_names_append TEXTURE_INFO_overwrite)
qed

text \<open>Any call made while the count is inside the array returns, keeps the array's
  length, raises the count by at most one and issues one image load.\<close>

lemma CreateGLTexture_step:
  assumes "m_loadedTextures s < length (m_textureIDs s)"
  shows "\<exists>b s'. CreateGLTexture stbi_load filename tag s = Inr (b, s')
    \<and> length (m_textureIDs s') = length (m_textureIDs s)
    \<and> m_loadedTextures s \<le> m_loadedTextures s'
    \<and> m_loadedTextures s' \<le> Suc (m_loadedTextures s)
    \<and> load_events (trace s') = Suc (load_events (trace s))"
  using assms
  by (auto simp: CreateGLTexture_def register_texture_def glGenTextures_def emit_def
        Let_def write_slot_def and_then_def load_events_append split: option.splits)

lemma CreateGLTexture_calls_bounds:
  assumes "m_loadedTextures s + length calls \<le> length (m_textureIDs s)"
  shows "\<exists>rs s'. CreateGLTexture_calls stbi_load calls s = Inr (rs, s')
    \<and> length (m_textureIDs s') = length (m_textureIDs s)
    \<and> m_loadedTextures s \<le> m_loadedTextures s'
    \<and> m_loadedTextures s' \<le> m_loadedTextures s + length calls
    \<and> load_events (trace s') = load_events (trace s) + length calls"
  using assms
proof (induction calls arbitrary: s)
  case Nil
  then show ?case by simp
next
  case (Cons c calls)
  obtain filename tag where c: "c = (filename, tag)" by (cases c)
  from Cons.prems have "m_loadedTextures s < length (m_textureIDs s)" by simp
  from CreateGLTexture_step [OF this, of stbi_load filename tag]
  obtain b s1 where s1: "CreateGLTexture stbi_load filename tag s = Inr (b, s1)"
    "length (m_textureIDs s1) = length (m_textureIDs s)"
    "m_loadedTextures s \<le> m_loadedTextures s1"
    "m_loadedTextures s1 \<le> Suc (m_loadedTextures s)"
    "load_events (trace s1) = Suc (load_events (trace s))"
    by blast
  have "m_loadedTextures s1 + length calls \<le> length (m_textureIDs s1)"
    using s1 Cons.prems by simp
  from Cons.IH [OF this]
  obtain rs s2 where s2: "CreateGLTexture_calls stbi_load calls s1 = Inr (rs, s2)"
    "length (m_textureIDs s2) = length (m_textureIDs s1)"
    "m_loadedTextures s1 \<le> m_loadedTextures s2"
    "m_loadedTextures s2 \<le> m_loadedTextures s1 + length calls"
    "load_events (trace s2) = load_events (trace s1) + length calls"
    by blast
  show ?case using c s1 s2 by simp
qed

text \<open>A sequence of successful loads that fits into the array fills the slots from the
  count on, in call order, with the names the driver hands out in that order.\<close>

lemma CreateGLTexture_calls_success:
  assumes "list_all (\<lambda>(filename, tag). decodes stbi_load filename) calls"
    and "m_loadedTextures s + length calls \<le> length (m_textureIDs s)"
  shows "\<exists>s'. CreateGLTexture_calls stbi_load calls s = Inr (replicate (length calls) True, s')
    \<and> length (m_textureIDs s') = length (m_textureIDs s)
    \<and> m_loadedTextures s' = m_loadedTextures s + length calls
    \<and> take (m_loadedTextures s) (m_textureIDs s') = take (m_loadedTextures s) (m_textureIDs s)
    \<and> (\<forall>k < length calls. m_textureIDs s' ! (m_loadedTextures s + k) =
          \<lparr>tex_tag = snd (calls ! k),
           tex_ID = gl_supply s (length (generated_names (trace s)) + k)\<rparr>)"
  using assms
proof (induction calls arbitrary: s)
  case Nil
  then show ?case by simp
next
  case (Cons c calls)
  obtain filename tag where c: "c = (filename, tag)" by (cases c)
  let ?n = "m_loadedTextures s"
  let ?g = "length (generated_names (trace s))"
  have dec: "decodes stbi_load filename"
    and rest: "list_all (\<lambda>(filename, tag). decodes stbi_load filename) calls"
    using Cons.prems(1) c by simp_all
  have lt: "?n < length (m_textureIDs s)" using Cons.prems(2) by simp
  from CreateGLTexture_success [OF dec lt, of tag]
  obtain s1 where s1: "CreateGLTexture stbi_load filename tag s = Inr (True, s1)"
    "m_textureIDs s1 = (m_textureIDs s)[?n := \<lparr>tex_tag = tag, tex_ID = gl_supply s ?g\<rparr>]"
    "m_loadedTextures s1 = Suc ?n"
    "gl_supply s1 = gl_supply s"
    "generated_names (trace s1) = generated_names (trace s) @ [gl_supply s ?g]"
    by blast
  have "m_loadedTextures s1 + length calls \<le> length (m_textureIDs s1)"
    using s1 Cons.prems(2) by simp
  from Cons.IH [OF rest this]
  obtain s2 where s2:
    "CreateGLTexture_calls stbi_load calls s1 = Inr (replicate (length calls) True, s2)"
    "length (m_textureIDs s2) = length (m_textureIDs s1)"
    "m_loadedTextures s2 = m_loadedTextures s1 + length calls"
    "take (m_loadedTextures s1) (m_textureIDs s2) = take (m_loadedTextures s1) (m_textureIDs s1)"
    "\<forall>k < length calls. m_textureIDs s2 ! (m_loadedTextures s1 + k) =
          \<lparr>tex_tag = snd (calls ! k),
           tex_ID = gl_supply s1 (length (generated_names (trace s1)) + k)\<rparr>"
    by blast
  have tk: "take (Suc ?n) (m_textureIDs s2) = take (Suc ?n) (m_textureIDs s1)"
    using s2(4) s1(3) by simp
  have at_n: "m_textureIDs s2 ! ?n = \<lparr>tex_tag = tag, tex_ID = gl_supply s ?g\<rparr>"
  proof -
    have "m_textureIDs s2 ! ?n = take (Suc ?n) (m_textureIDs s2) ! ?n" by simp
    also have "\<dots> = m_textureIDs s1 ! ?n" using tk by simp
    also have "\<dots> = \<lparr>tex_tag = tag, tex_ID = gl_supply s ?g\<rparr>" using s1(2) lt by simp
    finally show ?thesis .
  qed
  have below: "take ?n (m_textureIDs s2) = take ?n (m_textureIDs s)"
  proof -
    have "take ?n (m_textureIDs s2) = take ?n (take (Suc ?n) (m_textureIDs s2))"
      by (simp add: min_def)
    also have "\<dots> = take ?n (m_textureIDs s1)" using tk by (simp add: min_def)
    also have "\<dots> = take ?n (m_textureIDs s)" using s1(2) by simp
    finally show ?thesis .
  qed
  have each: "m_textureIDs s2 ! (?n + k) =
      \<lparr>tex_tag = snd ((c # calls) ! k), tex_ID = gl_supply s (?g + k)\<rparr>"
    if "k < length (c # calls)" for k
  proof (cases k)
    case 0
    then show ?thesis using at_n c by simp
  next
    case (Suc j)
    then have "j < length calls" using that by simp
    then show ?thesis using s2(5) s1(3,4,5) Suc by simp
  qed
  show ?case
    using c s1(1,2,3) s2(1,2,3) below each by simp
qed

lemma loaded_from_constructor:
  assumes "list_all (\<lambda>(filename, tag). decodes stbi_load filename) calls"
    and "length calls \<le> 16"
  shows "\<exists>s. CreateGLTexture_calls stbi_load calls (SceneManager pShaderManager names tr)
        = Inr (replicate (length calls) True, s)
    \<and> length (m_textureIDs s) = 16
    \<and> m_loadedTextures s = length calls
    \<and> loaded_tags s = map snd calls
    \<and> (\<forall>k < length calls. m_textureIDs s ! k =
          \<lparr>tex_tag = snd (calls ! k), tex_ID = names (length (generated_names tr) + k)\<rparr>)"
proof -
  let ?s0 = "SceneManager pShaderManager names tr :: ('a, 'b) state"
  have "m_loadedTextures ?s0 + length calls \<le> length (m_textureIDs ?s0)"
    using assms(2) by simp
  from CreateGLTexture_calls_success [OF assms(1) this]
  obtain s where s:
    "CreateGLTexture_calls stbi_load calls ?s0 = Inr (replicate (length calls) True, s)"
    "length (m_textureIDs s) = length (m_textureIDs ?s0)"
    "m_loadedTextures s = m_loadedTextures ?s0 + length calls"
    "\<forall>k < length calls. m_textureIDs s ! (m_loadedTextures ?s0 + k) =
          \<lparr>tex_tag = snd (calls ! k),
           tex_ID = gl_supply ?s0 (length (generated_names (trace ?s0)) + k)\<rparr>"
    by blast
  have len: "length (m_textureIDs s) = 16" and n: "m_loadedTextures s = length calls"
    using s(2,3) by simp_all
  have ent: "\<forall>k < length calls. m_textureIDs s ! k =
          \<lparr>tex_tag = snd (calls ! k), tex_ID = names (length (generated_names tr) + k)\<rparr>"
    using s(4) by simp
  have "loaded_tags s = map snd calls"
    using len n ent assms(2) by (intro nth_equalityI) (simp_all add: loaded_tags_def)
  then show ?thesis using s(1) len n ent by blast
qed

text \<open>Calls that return \<open>false\<close>: they leave the slots and the count as they are. A
  file that does not decode generates no name; an image with another channel count
  has generated one before the early return.\<close>

lemma CreateGLTexture_no_decode:
  assumes "stbi_load filename = None"
  shows "\<exists>s'. CreateGLTexture stbi_load filename tag s = Inr (False, s')
    \<and> m_textureIDs s' = m_textureIDs s
    \<and> m_loadedTextures s' = m_loadedTextures s
    \<and> gl_supply s' = gl_supply s
    \<and> generated_names (trace s') = generated_names (trace s)"
  using assms by (simp add: CreateGLTexture_def emit_def Let_def generated_names_append)

lemma CreateGLTexture_other_channels:
  assumes "stbi_load filename = Some img"
    and "\<not> (colorChannels img = 3 \<or> colorChannels img = 4)"
  shows "\<exists>s'. CreateGLTexture stbi_load filename tag s = Inr (False, s')
    \<and> m_textureIDs s' = m_textureIDs s
    \<and> m_loadedTextures s' = m_loadedTextures s
    \<and> gl_supply s' = gl_supply s
    \<and> generated_names (trace s') =
         generated_names (trace s) @ [gl_supply s (length (generated_names (trace s)))]"
  using assms
  by (simp add: CreateGLTexture_def glGenTextures_def emit_def Let_def generated_names_append)

text \<open>Any sequence of calls, whatever each of them returns, whose registrations fit into
  the array: every call returns whether its file decoded with 3 or 4 channels, and the
  slots from the old count on hold what \<open>recorded\<close> says.\<close>

lemma CreateGLTexture_calls_recorded:
  assumes "m_loadedTextures s
      + length (recorded stbi_load (gl_supply s) (length (generated_names (trace s))) calls)
      \<le> length (m_textureIDs s)"
  shows "\<exists>s'. CreateGLTexture_calls stbi_load calls s
        = Inr (map (\<lambda>(filename, tag). decodes stbi_load filename) calls, s')
    \<and> length (m_textureIDs s') = length (m_textureIDs s)
    \<and> m_loadedTextures s' = m_loadedTextures s
        + length (recorded stbi_load (gl_supply s) (length (generated_names (trace s))) calls)
    \<and> take (m_loadedTextures s') (m_textureIDs s') =
        take (m_loadedTextures s) (m_textureIDs s)
        @ recorded stbi_load (gl_supply s) (length (generated_names (trace s))) calls"
  using assms
proof (induction calls arbitrary: s)
  case Nil
  then show ?case by simp
next
  case (Cons c calls)
  obtain filename tag where c: "c = (filename, tag)" by (cases c)
  let ?n = "m_loadedTextures s"
  let ?g = "length (generated_names (trace s))"
  show ?case
  proof (cases "stbi_load filename")
    case None
    from CreateGLTexture_no_decode [of stbi_load filename tag s, OF None]
    obtain s1 where s1: "CreateGLTexture stbi_load filename tag s = Inr (False, s1)"
      "m_textureIDs s1 = m_textureIDs s" "m_loadedTextures s1 = ?n"
      "gl_supply s1 = gl_supply s" "generated_names (trace s1) = generated_names (trace s)"
      by blast
    have "m_loadedTextures s1
        + length (recorded stbi_load (gl_supply s1) (length (generated_names (trace s1))) calls)
        \<le> length (m_textureIDs s1)"
      using Cons.prems c None s1 by simp
    from Cons.IH [OF this] s1 c None show ?thesis
      by (auto simp: decodes_def)
  next
    case (Some img)
    show ?thesis
    proof (cases "colorChannels img = 3 \<or> colorChannels img = 4")
      case False
      from CreateGLTexture_other_channels [of stbi_load filename img tag s, OF Some False]
      obtain s1 where s1: "CreateGLTexture stbi_load filename tag s = Inr (False, s1)"
        "m_textureIDs s1 = m_textureIDs s" "m_loadedTextures s1 = ?n"
        "gl_supply s1 = gl_supply s"
        "generated_names (trace s1) = generated_names (trace s) @ [gl_supply s ?g]"
        by blast
      have "m_loadedTextures s1
          + length (recorded stbi_load (gl_supply s1) (length (generated_names (trace s1))) calls)
          \<le> length (m_textureIDs s1)"
        using Cons.prems c Some False s1 by simp
      from Cons.IH [OF this] s1 c Some False show ?thesis
        by (auto simp: decodes_def)
    next
      case True
      then have dec: "decodes stbi_load filename" using Some by (simp add: decodes_def)
      have R: "recorded stbi_load (gl_supply s) ?g (c # calls) =
          \<lparr>tex_tag = tag, tex_ID = gl_supply s ?g\<rparr>
          # recorded stbi_load (gl_supply s) (Suc ?g) calls"
        using c Some True by simp
      have lt: "?n < length (m_textureIDs s)" using Cons.prems R by simp
      from CreateGLTexture_success [OF dec lt, of tag]
      obtain s1 where s1: "CreateGLTexture stbi_load filename tag s = Inr (True, s1)"
        "m_textureIDs s1 = (m_textureIDs s)[?n := \<lparr>tex_tag = tag, tex_ID = gl_supply s ?g\<rparr>]"
        "m_loadedTextures s1 = Suc ?n"
        "gl_supply s1 = gl_supply s"
        "generated_names (trace s1) = generated_names (trace s) @ [gl_supply s ?g]"
        by blast
      have pre: "m_loadedTextures s1
          + length (recorded stbi_load (gl_supply s1) (length (generated_names (trace s1))) calls)
          \<le> length (m_textureIDs s1)"
        using Cons.prems R s1 by simp
      from Cons.IH [OF pre]
      obtain s2 where s2: "CreateGLTexture_calls stbi_load calls s1
            = Inr (map (\<lambda>(filename, tag). decodes stbi_load filename) calls, s2)"
        "length (m_textureIDs s2) = length (m_textureIDs s1)"
        "m_loadedTextures s2 = m_loadedTextures s1
            + length (recorded stbi_load (gl_supply s1) (length (generated_names (trace s1))) calls)"
        "take (m_loadedTextures s2) (m_textureIDs s2) =
            take (m_loadedTextures s1) (m_textureIDs s1)
            @ recorded stbi_load (gl_supply s1) (length (generated_names (trace s1))) calls"
        by blast
      have "take (Suc ?n) (m_textureIDs s1) =
          take ?n (m_textureIDs s) @ [\<lparr>tex_tag = tag, tex_ID = gl_supply s ?g\<rparr>]"
        using s1(2) lt by (simp add: take_Suc_conv_app_nth)
      then show ?thesis
        using c dec R s1 s2 by simp
    qed
  qed
qed

text \<open>The lookups after any sequence of calls on a new \<open>SceneManager\<close>: a tag is looked
  up among the registered entries, first match first.\<close>

lemma lookups_after_any_calls:
  assumes "length (recorded stbi_load names (length (generated_names tr)) calls) \<le> 16"
  shows "\<exists>s. CreateGLTexture_calls stbi_load calls (SceneManager pShaderManager names tr)
        = Inr (map (\<lambda>(filename, tag). decodes stbi_load filename) calls, s)
    \<and> take (m_loadedTextures s) (m_textureIDs s)
        = recorded stbi_load names (length (generated_names tr)) calls
    \<and> (\<forall>tag.
          FindTextureSlot tag s =
            Inr (if tag \<in> tex_tag ` set (recorded stbi_load names (length (generated_names tr)) calls)
                 then int (first_index
                   (map tex_tag (recorded stbi_load names (length (generated_names tr)) calls)) tag)
                 else - 1)
        \<and> FindTextureID tag s =
            Inr (if tag \<in> tex_tag ` set (recorded stbi_load names (length (generated_names tr)) calls)
                 then sint (tex_ID (recorded stbi_load names (length (generated_names tr)) calls
                   ! first_index
                       (map tex_tag (recorded stbi_load names (length (generated_names tr)) calls))
                       tag))
                 else - 1))"
proof -
  let ?s0 = "SceneManager pShaderManager names tr :: ('a, 'b) state"
  let ?R = "recorded stbi_load names (length (generated_names tr)) calls"
  have "m_loadedTextures ?s0
      + length (recorded stbi_load (gl_supply ?s0) (length (generated_names (trace ?s0))) calls)
      \<le> length (m_textureIDs ?s0)"
    using assms by simp
  from CreateGLTexture_calls_recorded [OF this]
  obtain s where s: "CreateGLTexture_calls stbi_load calls ?s0
        = Inr (map (\<lambda>(filename, tag). decodes stbi_load filename) calls, s)"
    "length (m_textureIDs s) = 16"
    "m_loadedTextures s = length ?R"
    "take (m_loadedTextures s) (m_textureIDs s) = ?R"
    by auto
  have ok: "m_loadedTextures s \<le> length (m_textureIDs s)" using s(2,3) assms by simp
  have tags: "loaded_tags s = map tex_tag ?R" using s(4) by (simp add: loaded_tags_def)
  have nth: "m_textureIDs s ! j = ?R ! j" if "j < length ?R" for j
  proof -
    have "take (m_loadedTextures s) (m_textureIDs s) ! j = m_textureIDs s ! j"
      using that s(3) by simp
    then show ?thesis using s(4) by simp
  qed
  have "FindTextureSlot tag s =
            Inr (if tag \<in> tex_tag ` set ?R then int (first_index (map tex_tag ?R) tag) else - 1)
        \<and> FindTextureID tag s =
            Inr (if tag \<in> tex_tag ` set ?R
                 then sint (tex_ID (?R ! first_index (map tex_tag ?R) tag)) else - 1)" for tag
  proof (cases "tag \<in> tex_tag ` set ?R")
    case True
    then have "first_index (map tex_tag ?R) tag < length ?R"
      using first_index_less_iff [of "map tex_tag ?R" tag] by simp
    from nth [OF this] True show ?thesis
      by (simp add: FindTextureSlot_eq [OF ok] FindTextureID_eq [OF ok] tags)
  next
    case False
    then show ?thesis
      by (simp add: FindTextureSlot_eq [OF ok] FindTextureID_eq [OF ok] tags)
  qed
  then show ?thesis using s(1,4) by blast
qed

text \<open>The conversion of an unsigned 32-bit name to \<open>int\<close>.\<close>

lemma sint_small:
  assumes "unat (h :: 32 word) < 2 ^ 31"
  shows "sint h = int (unat h)"
proof -
  have "int (unat h) < 2 ^ 31"
    using assms by (metis of_nat_less_iff of_nat_numeral of_nat_power)
  then have lt: "uint h < 2 ^ 31" by simp
  have ge: "- (2 ^ 31) \<le> uint h"
    by (rule order_trans [of _ 0]) simp_all
  have "sint h = signed_take_bit 31 (uint h)" by (simp add: sint_uint)
  also have "\<dots> = uint h" using ge lt by (rule signed_take_bit_int_eq_self)
  finally show ?thesis by simp
qed

lemma sint_minus_one: "sint (h :: 32 word) = - 1 \<Longrightarrow> h = - 1"
  using signed_word_eqI [of h "- 1", where ?'a = int] by simp

text \<open>One load on the driver that starts at \<open>0xFFFFFFFF\<close>.\<close>

lemma one_load_max_name_run:
  "CreateGLTexture_calls every_file_rgb [(''a.jpg'', ''a'')]
     (SceneManager None descending_names []) = Inr ([True], one_load_max_name)"
  by (simp add: CreateGLTexture_def register_texture_def glGenTextures_def emit_def
        write_slot_def and_then_def SceneManager_def every_file_rgb_def rgb_image_def Let_def
        one_load_max_name_def descending_names_def numeral_eq_Suc)

subsection \<open>Binding and destroying\<close>

lemma BindGLTextures_for_ok:
  assumes "m_loadedTextures s \<le> length (m_textureIDs s)"
  shows "\<exists>s'. BindGLTextures_for i s = Inr s'
    \<and> m_textureIDs s' = m_textureIDs s
    \<and> m_loadedTextures s' = m_loadedTextures s
    \<and> load_events (trace s') = load_events (trace s)"
  using assms
proof (induction "m_loadedTextures s - i" arbitrary: i s)
  case 0
  then show ?case by (subst BindGLTextures_for.simps) simp
next
  case (Suc d)
  then have lt: "i < m_loadedTextures s" by simp
  define s1 where "s1 = emit (GlBindTexture GL_TEXTURE_2D (tex_ID (m_textureIDs s ! i)))
     (emit (GlActiveTexture i) s)"
  have eq: "BindGLTextures_for i s = BindGLTextures_for (i + 1) s1"
    using lt Suc.prems
    by (subst BindGLTextures_for.simps) (simp add: read_slot_def and_then_def s1_def)
  have s1: "m_textureIDs s1 = m_textureIDs s" "m_loadedTextures s1 = m_loadedTextures s"
    "load_events (trace s1) = load_events (trace s)"
    by (simp_all add: s1_def emit_def load_events_append)
  have "d = m_loadedTextures s1 - (i + 1)" using Suc.hyps(2) s1 by simp
  from Suc.hyps(1) [OF this] Suc.prems s1 eq show ?case by simp
qed

text \<open>The loop of \<open>DestroyGLTextures\<close> from \<open>i\<close> on: it only adds \<open>glGenTextures\<close> calls
  to the trace, one per remaining slot, and leaves the count as it is.\<close>

lemma DestroyGLTextures_for_result:
  assumes "m_loadedTextures s \<le> length (m_textureIDs s)"
  shows "\<exists>s' new. DestroyGLTextures_for i s = Inr s'
    \<and> m_loadedTextures s' = m_loadedTextures s
    \<and> length (m_textureIDs s') = length (m_textureIDs s)
    \<and> trace s' = trace s @ map GlGenTextures new
    \<and> length new = m_loadedTextures s - i"
  using assms
proof (induction "m_loadedTextures s - i" arbitrary: i s)
  case 0
  then show ?case by (subst DestroyGLTextures_for.simps) simp
next
  case (Suc d)
  then have lt: "i < m_loadedTextures s" by simp
  define h where "h = gl_supply s (length (generated_names (trace s)))"
  define s2 where "s2 = (emit (GlGenTextures h) s)
     \<lparr>m_textureIDs := (m_textureIDs s)[i := (m_textureIDs s ! i)\<lparr>tex_ID := h\<rparr>]\<rparr>"
  have eq: "DestroyGLTextures_for i s = DestroyGLTextures_for (i + 1) s2"
    using lt Suc.prems
    by (subst DestroyGLTextures_for.simps)
       (simp add: glGenTextures_def write_slot_def emit_def Let_def h_def s2_def)
  have s2: "m_loadedTextures s2 = m_loadedTextures s"
    "length (m_textureIDs s2) = length (m_textureIDs s)"
    "trace s2 = trace s @ [GlGenTextures h]"
    by (simp_all add: s2_def emit_def)
  have d: "d = m_loadedTextures s2 - (i + 1)" using Suc.hyps(2) s2 by simp
  have "m_loadedTextures s2 \<le> length (m_textureIDs s2)" using Suc.prems s2 by simp
  from Suc.hyps(1) [OF d this]
  obtain s' new where r: "DestroyGLTextures_for (i + 1) s2 = Inr s'"
    "m_loadedTextures s' = m_loadedTextures s2"
    "length (m_textureIDs s') = length (m_textureIDs s2)"
    "trace s' = trace s2 @ map GlGenTextures new"
    "length new = m_loadedTextures s2 - (i + 1)"
    by blast
  have "trace s' = trace s @ map GlGenTextures (h # new)" using r(4) s2(3) by simp
  moreover have "length (h # new) = m_loadedTextures s - i" using r(5) s2(1) lt by simp
  ultimately show ?case using eq r(1,2,3) s2(1,2) by metis
qed

subsection \<open>Scene preparation\<close>

lemma LoadSceneTextures_calls:
  "LoadSceneTextures stbi_load s =
     (case CreateGLTexture_calls stbi_load scene_textures s of
        Inl e \<Rightarrow> Inl e
      | Inr (rs, s') \<Rightarrow> BindGLTextures s')"
  unfolding LoadSceneTextures_def scene_textures_def CreateGLTexture_calls.simps and_then_def
  by (simp split: sum.splits prod.splits)

text \<open>With a null shader manager the four setters that check the pointer do nothing.\<close>

lemma guarded_setters_null:
  assumes "m_pShaderManager s = None"
  shows "SetTransformations G scaleXYZ xd yd zd positionXYZ s = Inr s"
    and "SetShaderColor r g b a s = Inr s"
    and "SetShaderTexture textureTag s = Inr s"
    and "SetTextureUVScale u v s = Inr s"
  using assms
  by (simp_all add: SetTransformations_def SetShaderColor_def SetShaderTexture_def
        SetTextureUVScale_def Let_def)

section \<open>Properties C1 to C10 of the specification\<close>

text \<open>
  C1. The specification states that the material lookup reports not-found when the
  registry is empty or no stored tag equals the given tag, leaving the caller's material
  untouched, and that on a match it reports found and copies the record's diffuse colour,
  specular colour and shininess. The empty case and the match case are
  \<open>FindMaterial_empty\<close> and \<open>FindMaterial_found\<close>. In the remaining case the code
  differs: the function ends with \<open>return(true)\<close> and not with \<open>return(bFound)\<close>, so on
  a non-empty registry without a matching tag it reports found, and the caller's
  material is left as it was.
\<close>

theorem FindMaterial_unmatched_reports_found:
  assumes "m_objectMaterials s \<noteq> []" and "tag \<notin> set (material_tags s)"
  shows "FindMaterial tag material s = (True, material)"
  using assms by (rule FindMaterial_unmatched)

theorem FindMaterial_unmatched_reports_found_witness:
  "FindMaterial ''nonexistent'' glassMaterial (new_manager\<lparr>m_objectMaterials := [woodMaterial]\<rparr>)
     = (True, glassMaterial)"
  using FindMaterial_unmatched_reports_found
    [of "new_manager\<lparr>m_objectMaterials := [woodMaterial]\<rparr>" "''nonexistent''" glassMaterial]
  by (simp add: material_tags_def woodMaterial_def)

text \<open>
  C2. The specification states that \<open>SetShaderMaterial\<close> with a tag that matches no
  defined material pushes no material uniform. In the code, \<open>FindMaterial\<close> returns
  \<open>true\<close> for such a tag whenever a material is defined (C1), so the three pushes are
  made, with the content of the local \<open>material\<close> that nothing has written to.
\<close>

theorem SetShaderMaterial_unmatched_pushes_uninitialised:
  assumes "m_objectMaterials s \<noteq> []" and "tag \<notin> set (material_tags s)"
    and "m_pShaderManager s = Some sh"
  shows "SetShaderMaterial uninitialised tag s =
    Inr (s\<lparr>m_pShaderManager := Some (sh @
      [(''material.diffuseColor'', UVec3 (diffuseColor uninitialised)),
       (''material.specularColor'', UVec3 (specularColor uninitialised)),
       (''material.shininess'', UFloat (shininess uninitialised))])\<rparr>)"
  using assms
  by (simp add: SetShaderMaterial_def FindMaterial_unmatched shader_call_def and_then_def
        setVec3Value_def setFloatValue_def push_def)

text \<open>One material \<open>wood\<close> is defined, the shininess uniform holds 95, and the local
  happens to hold the values of the metal material: after
  \<open>SetShaderMaterial("nonexistent")\<close> the shininess uniform holds 52.\<close>

theorem SetShaderMaterial_unmatched_pushes_uninitialised_witness:
  "SetShaderMaterial goldMaterial ''nonexistent''
     (new_manager\<lparr>m_pShaderManager := Some [(''material.shininess'', UFloat 95)],
        m_objectMaterials := [woodMaterial]\<rparr>)
   = Inr (new_manager\<lparr>m_pShaderManager := Some
       [(''material.shininess'', UFloat 95),
        (''material.diffuseColor'', UVec3 (0.4, 0.4, 0.4)),
        (''material.specularColor'', UVec3 (0.7, 0.7, 0.6)),
        (''material.shininess'', UFloat 52)],
        m_objectMaterials := [woodMaterial]\<rparr>)
   \<and> uniform [(''material.shininess'', UFloat 95)] ''material.shininess''
       = Some (UFloat 95 :: (real, real transform list) uniform_value)
   \<and> uniform [(''material.shininess'', UFloat 95),
        (''material.diffuseColor'', UVec3 (0.4, 0.4, 0.4)),
        (''material.specularColor'', UVec3 (0.7, 0.7, 0.6)),
        (''material.shininess'', UFloat 52)] ''material.shininess''
       = Some (UFloat 52 :: (real, real transform list) uniform_value)"
  using SetShaderMaterial_unmatched_pushes_uninitialised
    [of "new_manager\<lparr>m_pShaderManager := Some [(''material.shininess'', UFloat 95)],
        m_objectMaterials := [woodMaterial]\<rparr>" "''nonexistent''"
        "[(''material.shininess'', UFloat 95)]" goldMaterial]
  by (simp add: material_tags_def woodMaterial_def goldMaterial_def uniform_def)

text \<open>
  C3. The specification states that a load into a registry whose count equals the
  capacity of 16 fails cleanly and writes nothing outside the array. The code has no
  check: when the image decodes with 3 or 4 channels it writes
  \<open>m_textureIDs[16]\<close>, outside the 16 entries of the array.
\<close>

theorem CreateGLTexture_at_capacity_writes_out_of_bounds:
  assumes "length (m_textureIDs s) = 16" and "m_loadedTextures s = 16"
    and "stbi_load filename = Some img"
    and "colorChannels img = 3 \<or> colorChannels img = 4"
  shows "CreateGLTexture stbi_load filename tag s = Inl OutOfBounds"
  using assms
  by (auto simp: CreateGLTexture_def register_texture_def glGenTextures_def emit_def Let_def
        write_slot_def and_then_def)

text \<open>Sixteen loads into a new \<open>SceneManager\<close> succeed; the seventeenth is the
  out-of-bounds write.\<close>

theorem CreateGLTexture_at_capacity_writes_out_of_bounds_witness:
  "\<exists>s. CreateGLTexture_calls every_file_rgb (replicate 16 (''a.jpg'', ''a'')) new_manager
       = Inr (replicate 16 True, s)
     \<and> m_loadedTextures s = 16
     \<and> CreateGLTexture every_file_rgb ''a.jpg'' ''a'' s = Inl OutOfBounds"
proof -
  have "list_all (\<lambda>(filename, tag). decodes every_file_rgb filename)
      (replicate 16 (''a.jpg'', ''a''))" by (simp add: list_all_length)
  from loaded_from_constructor [OF this, of None sequential_names "[]"]
  obtain s where s: "CreateGLTexture_calls every_file_rgb (replicate 16 (''a.jpg'', ''a''))
      new_manager = Inr (replicate 16 True, s)"
    "length (m_textureIDs s) = 16" "m_loadedTextures s = 16"
    by (auto simp: new_manager_def)
  have "CreateGLTexture every_file_rgb ''a.jpg'' ''a'' s = Inl OutOfBounds"
    using CreateGLTexture_at_capacity_writes_out_of_bounds
      [OF s(2) s(3), of every_file_rgb "''a.jpg''" rgb_image "''a''"]
    by (simp add: every_file_rgb_def rgb_image_def)
  then show ?thesis using s by blast
qed

text \<open>
  C4. The specification states that the release operation frees every texture handle
  the registry allocated and resets the count to zero. The code's comment says the same
  ("freeing the memory in all the used texture memory slots"), but the loop calls
  \<open>glGenTextures\<close> where \<open>glDeleteTextures\<close> is meant and the count is never assigned:
  the call adds one newly generated name per loaded slot to the names in use, releases
  none, and leaves the count as it was.
\<close>

theorem DestroyGLTextures_generates_and_keeps_count:
  assumes "registry_ok s"
  shows "\<exists>s' new. DestroyGLTextures s = Inr s'
    \<and> m_loadedTextures s' = m_loadedTextures s
    \<and> trace s' = trace s @ map GlGenTextures new
    \<and> generated_names (trace s') = generated_names (trace s) @ new
    \<and> length new = m_loadedTextures s"
proof -
  have "m_loadedTextures s \<le> length (m_textureIDs s)"
    using assms by (simp add: registry_ok_def)
  from DestroyGLTextures_for_result [OF this, of 0]
  obtain s' new where r: "DestroyGLTextures_for 0 s = Inr s'"
    "m_loadedTextures s' = m_loadedTextures s"
    "trace s' = trace s @ map GlGenTextures new"
    "length new = m_loadedTextures s"
    by auto
  then have "generated_names (trace s') = generated_names (trace s) @ new"
    by (simp add: generated_names_append generated_names_map)
  then show ?thesis using r by (auto simp: DestroyGLTextures_def)
qed

text \<open>After two textures were loaded, the count after \<open>DestroyGLTextures\<close> is still 2
  and two more names are in use.\<close>

theorem DestroyGLTextures_generates_and_keeps_count_witness:
  "\<exists>s s' new. CreateGLTexture_calls every_file_rgb [(''a.jpg'', ''a''), (''b.jpg'', ''b'')]
         new_manager = Inr ([True, True], s)
     \<and> registry_ok s
     \<and> DestroyGLTextures s = Inr s'
     \<and> m_loadedTextures s' = 2
     \<and> generated_names (trace s') = generated_names (trace s) @ new
     \<and> length new = 2"
proof -
  have "list_all (\<lambda>(filename, tag). decodes every_file_rgb filename)
      [(''a.jpg'', ''a''), (''b.jpg'', ''b'')]" by simp
  from loaded_from_constructor [OF this, of None sequential_names "[]"]
  obtain s where s: "CreateGLTexture_calls every_file_rgb [(''a.jpg'', ''a''), (''b.jpg'', ''b'')]
      new_manager = Inr ([True, True], s)"
    "length (m_textureIDs s) = 16" "m_loadedTextures s = 2"
    by (auto simp: new_manager_def numeral_2_eq_2)
  then have ok: "registry_ok s" by (simp add: registry_ok_def)
  from DestroyGLTextures_generates_and_keeps_count [OF ok] s ok show ?thesis by auto
qed

text \<open>
  C5. With a shader manager present, \<open>SetTransformations\<close> pushes one value, under the
  uniform name \<open>model\<close>: the product translation * rotationZ * rotationY * rotationX *
  scale, where each rotation is built from the angle converted by \<open>glm::radians\<close> and
  the unit vector of its axis. This holds for every scale, angle and position, and for
  whatever the GLM functions compute.
\<close>

theorem SetTransformations_pushes_model_matrix:
  assumes "m_pShaderManager s = Some sh"
  shows "SetTransformations G scaleXYZ XrotationDegrees YrotationDegrees ZrotationDegrees
      positionXYZ s =
    Inr (s\<lparr>m_pShaderManager := Some (sh @ [(''model'', UMat4 (
      glm_mul G (glm_mul G (glm_mul G (glm_mul G
        (glm_translate G positionXYZ)
        (glm_rotate G (glm_radians G ZrotationDegrees) (lit_0 G, lit_0 G, lit_1 G)))
        (glm_rotate G (glm_radians G YrotationDegrees) (lit_0 G, lit_1 G, lit_0 G)))
        (glm_rotate G (glm_radians G XrotationDegrees) (lit_1 G, lit_0 G, lit_0 G)))
        (glm_scale G scaleXYZ)))])\<rparr>)"
  using assms
  by (simp add: SetTransformations_def shader_call_def setMat4Value_def push_def g_ModelName_def)

text \<open>Scale 2, 90 degrees about X, 0 about Y, 180 about Z, position (1, 2, 3): the
  factors of the pushed product, from the left, are the translation, the rotation about
  Z by \<open>pi\<close>, about Y by 0, about X by \<open>pi / 2\<close>, and the scale.\<close>

theorem SetTransformations_pushes_model_matrix_witness:
  "SetTransformations formal_glm (2, 2, 2) 90 0 180 (1, 2, 3)
     (new_manager\<lparr>m_pShaderManager := Some []\<rparr>) =
   Inr (new_manager\<lparr>m_pShaderManager := Some [(''model'', UMat4
     [Translate (1, 2, 3), Rotate pi (0, 0, 1), Rotate 0 (0, 1, 0), Rotate (pi / 2) (1, 0, 0),
      Scale (2, 2, 2)])]\<rparr>)"
  using SetTransformations_pushes_model_matrix
    [of "new_manager\<lparr>m_pShaderManager := Some []\<rparr>" "[]" formal_glm
      "(2, 2, 2)" 90 0 180 "(1, 2, 3)"]
  by (simp add: formal_glm_def)

text \<open>
  C6, as it is stated, fails when the driver hands out the name \<open>0xFFFFFFFF\<close>. One
  successful load of the tag \<open>a\<close> records that name (4294967295) in slot 0.
  \<open>FindTextureSlot\<close> returns 0, but \<open>FindTextureID\<close>, whose return type is \<open>int\<close>,
  returns \<open>-1\<close>: not the value of the recorded handle, and the same result as for the
  tag \<open>b\<close>, which was never loaded.
\<close>

theorem loaded_handle_returned_as_sentinel:
  "CreateGLTexture_calls every_file_rgb [(''a.jpg'', ''a'')]
       (SceneManager None descending_names []) = Inr ([True], one_load_max_name)
   \<and> tex_tag (m_textureIDs one_load_max_name ! 0) = ''a''
   \<and> uint (tex_ID (m_textureIDs one_load_max_name ! 0)) = 4294967295
   \<and> FindTextureSlot ''a'' one_load_max_name = Inr 0
   \<and> FindTextureID ''a'' one_load_max_name = Inr (- 1)
   \<and> FindTextureID ''a'' one_load_max_name
       \<noteq> Inr (uint (tex_ID (m_textureIDs one_load_max_name ! 0)))
   \<and> FindTextureID ''b'' one_load_max_name = Inr (- 1)"
proof -
  have ok: "m_loadedTextures one_load_max_name \<le> length (m_textureIDs one_load_max_name)"
    by (simp add: one_load_max_name_def)
  have tags: "loaded_tags one_load_max_name = [''a'']"
    by (simp add: loaded_tags_def one_load_max_name_def)
  have slot0: "m_textureIDs one_load_max_name ! 0 = \<lparr>tex_tag = ''a'', tex_ID = - 1\<rparr>"
    by (simp add: one_load_max_name_def)
  have run: "CreateGLTexture_calls every_file_rgb [(''a.jpg'', ''a'')]
       (SceneManager None descending_names []) = Inr ([True], one_load_max_name)"
    by (rule one_load_max_name_run)
  have t: "tex_tag (m_textureIDs one_load_max_name ! 0) = ''a''"
    by (simp add: slot0)
  have u: "uint (tex_ID (m_textureIDs one_load_max_name ! 0)) = 4294967295"
    by (simp add: slot0 unsigned_minus_1_eq_mask mask_eq_exp_minus_1)
  have slot_a: "FindTextureSlot ''a'' one_load_max_name = Inr 0"
    by (simp add: FindTextureSlot_eq [OF ok] tags)
  have id_a: "FindTextureID ''a'' one_load_max_name = Inr (- 1)"
    by (simp add: FindTextureID_eq [OF ok] tags slot0)
  have ne: "FindTextureID ''a'' one_load_max_name
       \<noteq> Inr (uint (tex_ID (m_textureIDs one_load_max_name ! 0)))"
    using id_a u by simp
  have id_b: "FindTextureID ''b'' one_load_max_name = Inr (- 1)"
    by (simp add: FindTextureID_eq [OF ok] tags)
  show ?thesis
    using run t u slot_a id_a ne id_b by blast
qed

text \<open>
  C6, amended. A new \<open>SceneManager\<close> receives at most 16 calls of \<open>CreateGLTexture\<close>,
  each on a file that decodes with 3 or 4 channels. Then every call returns \<open>true\<close>, the
  count is the number of calls, and slot \<open>k\<close> holds the tag of call \<open>k\<close> and the name
  \<open>glGenTextures\<close> returned in call \<open>k\<close> (the driver's next name at that time). For the
  tag of any of the calls, \<open>FindTextureSlot\<close> returns the index of the first call with
  that tag, and \<open>FindTextureID\<close> returns the name recorded by that first call converted
  to \<open>int\<close> (its 32 bits read as two's complement): that is the name's own value when
  the name is below \<open>2^31\<close>, and it differs from \<open>-1\<close> unless the name is
  \<open>0xFFFFFFFF\<close>. For a tag of none of the calls, both return \<open>-1\<close>. Calls that fail in
  between register nothing and leave both lookups as they are
  (\<open>lookups_after_any_calls\<close>).
\<close>

theorem lookups_after_loading:
  assumes "list_all (\<lambda>(filename, tag). decodes stbi_load filename) calls"
    and "length calls \<le> 16"
  shows "\<exists>s. CreateGLTexture_calls stbi_load calls (SceneManager pShaderManager names tr)
        = Inr (replicate (length calls) True, s)
    \<and> m_loadedTextures s = length calls
    \<and> (\<forall>k < length calls.
          m_textureIDs s ! k =
            \<lparr>tex_tag = snd (calls ! k), tex_ID = names (length (generated_names tr) + k)\<rparr>
        \<and> FindTextureSlot (snd (calls ! k)) s
            = Inr (int (first_index (map snd calls) (snd (calls ! k))))
        \<and> FindTextureID (snd (calls ! k)) s
            = Inr (sint (names (length (generated_names tr)
                   + first_index (map snd calls) (snd (calls ! k)))))
        \<and> (unat (names (length (generated_names tr)
                   + first_index (map snd calls) (snd (calls ! k)))) < 2 ^ 31 \<longrightarrow>
            FindTextureID (snd (calls ! k)) s
              = Inr (int (unat (names (length (generated_names tr)
                   + first_index (map snd calls) (snd (calls ! k)))))))
        \<and> (names (length (generated_names tr)
                   + first_index (map snd calls) (snd (calls ! k))) \<noteq> - 1 \<longrightarrow>
            FindTextureID (snd (calls ! k)) s \<noteq> Inr (- 1)))
    \<and> (\<forall>tag. tag \<notin> snd ` set calls \<longrightarrow>
          FindTextureSlot tag s = Inr (- 1) \<and> FindTextureID tag s = Inr (- 1))"
proof -
  from loaded_from_constructor [OF assms, of pShaderManager names tr]
  obtain s where s: "CreateGLTexture_calls stbi_load calls (SceneManager pShaderManager names tr)
        = Inr (replicate (length calls) True, s)"
    "length (m_textureIDs s) = 16" "m_loadedTextures s = length calls"
    "loaded_tags s = map snd calls"
    "\<forall>k < length calls. m_textureIDs s ! k =
          \<lparr>tex_tag = snd (calls ! k), tex_ID = names (length (generated_names tr) + k)\<rparr>"
    by blast
  have ok: "m_loadedTextures s \<le> length (m_textureIDs s)" using s(2,3) assms(2) by simp
  have hit: "FindTextureSlot (snd (calls ! k)) s
            = Inr (int (first_index (map snd calls) (snd (calls ! k))))
        \<and> FindTextureID (snd (calls ! k)) s
            = Inr (sint (names (length (generated_names tr)
                   + first_index (map snd calls) (snd (calls ! k)))))"
    if "k < length calls" for k
  proof -
    let ?t = "snd (calls ! k)"
    have mem: "?t \<in> set (map snd calls)" using that by simp
    then have "first_index (map snd calls) ?t < length calls"
      using first_index_less_iff [of "map snd calls" ?t] by simp
    then have "tex_ID (m_textureIDs s ! first_index (map snd calls) ?t)
        = names (length (generated_names tr) + first_index (map snd calls) ?t)"
      using s(5) by simp
    then show ?thesis
      using mem s(4) by (simp add: FindTextureSlot_eq [OF ok] FindTextureID_eq [OF ok])
  qed
  have small: "FindTextureID (snd (calls ! k)) s
              = Inr (int (unat (names (length (generated_names tr)
                   + first_index (map snd calls) (snd (calls ! k))))))"
    if "k < length calls"
      and "unat (names (length (generated_names tr)
                   + first_index (map snd calls) (snd (calls ! k)))) < 2 ^ 31" for k
    using hit [OF that(1)] sint_small [OF that(2)] by simp
  have differs: "FindTextureID (snd (calls ! k)) s \<noteq> Inr (- 1)"
    if "k < length calls"
      and "names (length (generated_names tr)
                   + first_index (map snd calls) (snd (calls ! k))) \<noteq> - 1" for k
    using hit [OF that(1)] that(2) sint_minus_one by auto
  have miss: "FindTextureSlot tag s = Inr (- 1) \<and> FindTextureID tag s = Inr (- 1)"
    if "tag \<notin> snd ` set calls" for tag
    using that s(4) by (simp add: FindTextureSlot_eq [OF ok] FindTextureID_eq [OF ok])
  have each: "m_textureIDs s ! k =
            \<lparr>tex_tag = snd (calls ! k), tex_ID = names (length (generated_names tr) + k)\<rparr>
        \<and> FindTextureSlot (snd (calls ! k)) s
            = Inr (int (first_index (map snd calls) (snd (calls ! k))))
        \<and> FindTextureID (snd (calls ! k)) s
            = Inr (sint (names (length (generated_names tr)
                   + first_index (map snd calls) (snd (calls ! k)))))
        \<and> (unat (names (length (generated_names tr)
                   + first_index (map snd calls) (snd (calls ! k)))) < 2 ^ 31 \<longrightarrow>
            FindTextureID (snd (calls ! k)) s
              = Inr (int (unat (names (length (generated_names tr)
                   + first_index (map snd calls) (snd (calls ! k)))))))
        \<and> (names (length (generated_names tr)
                   + first_index (map snd calls) (snd (calls ! k))) \<noteq> - 1 \<longrightarrow>
            FindTextureID (snd (calls ! k)) s \<noteq> Inr (- 1))"
    if "k < length calls" for k
    using s(5) hit [OF that] small [OF that] differs [OF that] that by blast
  show ?thesis
    using s(1,3) each miss by blast
qed

text \<open>Four loads with the tags \<open>floor\<close>, \<open>brick\<close>, \<open>metal\<close>, \<open>floor\<close>, which receive the
  names 1, 2, 3, 4: \<open>metal\<close> is found in slot 2 with name 3, \<open>floor\<close> in slot 0 with
  name 1 (the first of the two), and \<open>glass\<close> is not found.\<close>

theorem lookups_after_loading_witness:
  "\<exists>s. CreateGLTexture_calls every_file_rgb
         [(''floor.jpg'', ''floor''), (''brick.jpg'', ''brick''), (''metal.jpg'', ''metal''),
          (''floor2.jpg'', ''floor'')] new_manager
       = Inr ([True, True, True, True], s)
     \<and> FindTextureSlot ''metal'' s = Inr 2 \<and> FindTextureID ''metal'' s = Inr 3
     \<and> FindTextureSlot ''floor'' s = Inr 0 \<and> FindTextureID ''floor'' s = Inr 1
     \<and> FindTextureSlot ''glass'' s = Inr (- 1) \<and> FindTextureID ''glass'' s = Inr (- 1)"
proof -
  let ?calls = "[(''floor.jpg'', ''floor''), (''brick.jpg'', ''brick''), (''metal.jpg'', ''metal''),
          (''floor2.jpg'', ''floor'')]"
  have h1: "list_all (\<lambda>(filename, tag). decodes every_file_rgb filename) ?calls" by simp
  have h2: "length ?calls \<le> 16" by simp
  from lookups_after_loading [OF h1 h2, of None sequential_names "[]"]
  obtain s where run: "CreateGLTexture_calls every_file_rgb ?calls new_manager
        = Inr (replicate (length ?calls) True, s)"
    and hit: "\<forall>k < length ?calls.
        FindTextureSlot (snd (?calls ! k)) s
            = Inr (int (first_index (map snd ?calls) (snd (?calls ! k))))
        \<and> (unat (sequential_names (length (generated_names [])
                   + first_index (map snd ?calls) (snd (?calls ! k)))) < 2 ^ 31 \<longrightarrow>
            FindTextureID (snd (?calls ! k)) s
              = Inr (int (unat (sequential_names (length (generated_names [])
                   + first_index (map snd ?calls) (snd (?calls ! k)))))))"
    and miss: "\<forall>tag. tag \<notin> snd ` set ?calls \<longrightarrow>
          FindTextureSlot tag s = Inr (- 1) \<and> FindTextureID tag s = Inr (- 1)"
    unfolding new_manager_def by blast
  have r: "CreateGLTexture_calls every_file_rgb ?calls new_manager
      = Inr ([True, True, True, True], s)"
    using run by (simp add: numeral_eq_Suc)
  have "2 < length ?calls" by simp
  from hit [rule_format, OF this]
  have metal: "FindTextureSlot ''metal'' s = Inr 2 \<and> FindTextureID ''metal'' s = Inr 3"
    by (simp add: sequential_names_def)
  have "3 < length ?calls" by simp
  from hit [rule_format, OF this]
  have floor: "FindTextureSlot ''floor'' s = Inr 0 \<and> FindTextureID ''floor'' s = Inr 1"
    by (simp add: sequential_names_def)
  have glass: "FindTextureSlot ''glass'' s = Inr (- 1) \<and> FindTextureID ''glass'' s = Inr (- 1)"
    using miss [rule_format, of "''glass''"] by simp
  show ?thesis using r metal floor glass by blast
qed

text \<open>
  C7. When the image decodes but has neither 3 nor 4 colour channels, \<open>CreateGLTexture\<close>
  returns \<open>false\<close> without a fault, and the slot array and the count are as before.
\<close>

theorem CreateGLTexture_unsupported_channels:
  assumes "stbi_load filename = Some img"
    and "colorChannels img \<noteq> 3" and "colorChannels img \<noteq> 4"
  shows "\<exists>s'. CreateGLTexture stbi_load filename tag s = Inr (False, s')
    \<and> m_loadedTextures s' = m_loadedTextures s
    \<and> m_textureIDs s' = m_textureIDs s"
  using assms by (simp add: CreateGLTexture_def glGenTextures_def emit_def Let_def)

theorem CreateGLTexture_unsupported_channels_witness:
  "\<exists>s'. CreateGLTexture every_file_grey ''grey.png'' ''grey'' new_manager = Inr (False, s')
    \<and> m_loadedTextures s' = 0
    \<and> m_textureIDs s' = m_textureIDs new_manager"
  using CreateGLTexture_unsupported_channels
    [of every_file_grey "''grey.png''" grey_image "''grey''" new_manager]
  by (auto simp: every_file_grey_def grey_image_def new_manager_def)

text \<open>
  C8, as it is stated, fails on a registry in which a loaded slot holds
  the name \<open>0xFFFFFFFF\<close>: \<open>FindTextureID\<close> returns the stored name as an \<open>int\<close>, and
  that name reads as \<open>-1\<close>, the value that also means not-found, while
  \<open>FindTextureSlot\<close> returns the slot. \<open>max_name_registry\<close> is such a registry, and one
  load on a driver that hands out \<open>0xFFFFFFFF\<close> produces its slots.
\<close>

lemma max_name_registry_reachable:
  "\<exists>s. CreateGLTexture every_file_rgb ''a.jpg'' ''a''
          (SceneManager None descending_names [] :: (real, real transform list) state)
        = Inr (True, s)
     \<and> m_textureIDs s = m_textureIDs max_name_registry
     \<and> m_loadedTextures s = m_loadedTextures max_name_registry"
proof -
  let ?s0 = "SceneManager None descending_names [] :: (real, real transform list) state"
  have "m_loadedTextures ?s0 < length (m_textureIDs ?s0)" by simp
  from CreateGLTexture_success [OF decodes_rgb this, of "''a.jpg''" "''a''"]
  show ?thesis
    by (auto simp: max_name_registry_def descending_names_def SceneManager_def
          numeral_Bit0 numeral_Bit1)
qed

theorem lookup_sentinel_collision:
  "registry_ok max_name_registry
   \<and> FindTextureSlot ''a'' max_name_registry = Inr 0
   \<and> FindTextureID ''a'' max_name_registry = Inr (- 1)
   \<and> \<not> (FindTextureSlot ''a'' max_name_registry = Inr (- 1)
        \<longleftrightarrow> FindTextureID ''a'' max_name_registry = Inr (- 1))"
proof -
  have ok: "m_loadedTextures max_name_registry \<le> length (m_textureIDs max_name_registry)"
    by (simp add: max_name_registry_def)
  have tags: "loaded_tags max_name_registry = [''a'']"
    by (simp add: loaded_tags_def max_name_registry_def)
  have "FindTextureSlot ''a'' max_name_registry = Inr 0"
    by (simp add: FindTextureSlot_eq [OF ok] tags)
  moreover have "FindTextureID ''a'' max_name_registry = Inr (- 1)"
    by (simp add: FindTextureID_eq [OF ok] tags) (simp add: max_name_registry_def)
  moreover have "registry_ok max_name_registry"
    by (simp add: registry_ok_def max_name_registry_def)
  ultimately show ?thesis by simp
qed

text \<open>
  C8, amended. \<open>FindTextureID\<close> and \<open>FindTextureSlot\<close> only read the state (they return
  a value and no state). For every registry whose count is within the 16-entry array,
  and every tag, both return without a fault; when \<open>FindTextureSlot\<close> returns a
  non-negative index, the index is below the count and \<open>FindTextureID\<close> returns the
  name stored in that slot, as an \<open>int\<close>; when \<open>FindTextureSlot\<close> returns \<open>-1\<close>, so does
  \<open>FindTextureID\<close>; and when no loaded slot holds the name \<open>0xFFFFFFFF\<close>,
  \<open>FindTextureID\<close> returns \<open>-1\<close> only if \<open>FindTextureSlot\<close> does.
\<close>

theorem lookups_agree:
  assumes "registry_ok s"
  shows "\<exists>slot handle. FindTextureSlot tag s = Inr slot \<and> FindTextureID tag s = Inr handle
    \<and> (0 \<le> slot \<longrightarrow> nat slot < m_loadedTextures s
          \<and> handle = sint (tex_ID (m_textureIDs s ! nat slot)))
    \<and> (slot = - 1 \<longrightarrow> handle = - 1)
    \<and> ((\<forall>i < m_loadedTextures s. tex_ID (m_textureIDs s ! i) \<noteq> - 1) \<longrightarrow>
          (handle = - 1 \<longrightarrow> slot = - 1))"
proof -
  have ok: "m_loadedTextures s \<le> length (m_textureIDs s)"
    using assms by (simp add: registry_ok_def)
  show ?thesis
  proof (cases "tag \<in> set (loaded_tags s)")
    case True
    then have lt: "first_index (loaded_tags s) tag < m_loadedTextures s"
      using first_index_less_iff [of "loaded_tags s" tag] ok by (simp add: length_loaded_tags)
    have "sint (tex_ID (m_textureIDs s ! first_index (loaded_tags s) tag)) \<noteq> - 1"
      if "\<forall>i < m_loadedTextures s. tex_ID (m_textureIDs s ! i) \<noteq> - 1"
    proof
      assume "sint (tex_ID (m_textureIDs s ! first_index (loaded_tags s) tag)) = - 1"
      then have "tex_ID (m_textureIDs s ! first_index (loaded_tags s) tag) = - 1"
        using signed_word_eqI [of "tex_ID (m_textureIDs s ! first_index (loaded_tags s) tag)"
            "- 1", where ?'a = int]
        by simp
      then show False using that lt by blast
    qed
    then show ?thesis
      using True lt by (simp add: FindTextureSlot_eq [OF ok] FindTextureID_eq [OF ok])
  next
    case False
    then show ?thesis
      by (simp add: FindTextureSlot_eq [OF ok] FindTextureID_eq [OF ok])
  qed
qed

text \<open>On the registry with \<open>floor\<close>, \<open>brick\<close>, \<open>metal\<close>: the slot of \<open>metal\<close> is 2, so
  its ID is the name in slot 2; the ID of \<open>glass\<close> is \<open>-1\<close> and no slot holds
  \<open>0xFFFFFFFF\<close>, so its slot is \<open>-1\<close>.\<close>

theorem lookups_agree_witness:
  "registry_ok three_textures
   \<and> FindTextureSlot ''metal'' three_textures = Inr 2
   \<and> FindTextureID ''metal'' three_textures = Inr 3
   \<and> FindTextureID ''glass'' three_textures = Inr (- 1)
   \<and> FindTextureSlot ''glass'' three_textures = Inr (- 1)"
proof -
  have reg: "registry_ok three_textures"
    by (simp add: registry_ok_def three_textures_def)
  then have ok: "m_loadedTextures three_textures \<le> length (m_textureIDs three_textures)"
    by (simp add: registry_ok_def)
  have n: "m_loadedTextures three_textures = 3" by (simp add: three_textures_def)
  have tags: "loaded_tags three_textures = [''floor'', ''brick'', ''metal'']"
    by (simp add: loaded_tags_def three_textures_def numeral_3_eq_3)
  have ids: "\<forall>i < m_loadedTextures three_textures.
      tex_ID (m_textureIDs three_textures ! i) \<noteq> - 1"
    by (auto simp: three_textures_def numeral_3_eq_3 less_Suc_eq)
  have slot_metal: "FindTextureSlot ''metal'' three_textures = Inr 2"
    by (simp add: FindTextureSlot_eq [OF ok] tags)
  have id_glass: "FindTextureID ''glass'' three_textures = Inr (- 1)"
    by (simp add: FindTextureID_eq [OF ok] tags)
  from lookups_agree [OF reg, of "''metal''"] slot_metal
  have id_metal: "FindTextureID ''metal'' three_textures = Inr 3"
    by (auto simp: three_textures_def)
  from lookups_agree [OF reg, of "''glass''"] id_glass ids
  have slot_glass: "FindTextureSlot ''glass'' three_textures = Inr (- 1)"
    by auto
  show ?thesis using reg slot_metal id_metal id_glass slot_glass by simp
qed

text \<open>
  C9. \<open>LoadSceneTextures\<close>, run on a newly constructed \<open>SceneManager\<close>, returns without a
  fault for every image loader and every driver: it issues exactly 11 image loads, the
  count afterwards is at most 11, below the 16 entries of the array, so none of its
  registrations writes outside the array. \<open>PrepareScene\<close> calls \<open>LoadSceneTextures\<close>
  first, and no other function it calls loads a texture.
\<close>

theorem LoadSceneTextures_within_capacity:
  "\<exists>s'. LoadSceneTextures stbi_load (SceneManager pShaderManager names tr) = Inr s'
    \<and> m_loadedTextures s' \<le> 11 \<and> m_loadedTextures s' < 16
    \<and> length (m_textureIDs s') = 16
    \<and> load_events (trace s') = load_events tr + 11"
proof -
  let ?s0 = "SceneManager pShaderManager names tr"
  have "m_loadedTextures ?s0 + length scene_textures \<le> length (m_textureIDs ?s0)"
    by (simp add: scene_textures_def)
  from CreateGLTexture_calls_bounds [OF this, of stbi_load]
  obtain rs s1 where s1: "CreateGLTexture_calls stbi_load scene_textures ?s0 = Inr (rs, s1)"
    "length (m_textureIDs s1) = length (m_textureIDs ?s0)"
    "m_loadedTextures s1 \<le> m_loadedTextures ?s0 + length scene_textures"
    "load_events (trace s1) = load_events (trace ?s0) + length scene_textures"
    by blast
  have b: "m_loadedTextures s1 \<le> 11" "length (m_textureIDs s1) = 16"
    "load_events (trace s1) = load_events tr + 11"
    using s1 by (simp_all add: scene_textures_def)
  then have "m_loadedTextures s1 \<le> length (m_textureIDs s1)" by simp
  from BindGLTextures_for_ok [OF this, of 0]
  obtain s2 where "BindGLTextures s1 = Inr s2" "m_textureIDs s2 = m_textureIDs s1"
    "m_loadedTextures s2 = m_loadedTextures s1" "load_events (trace s2) = load_events (trace s1)"
    by (auto simp: BindGLTextures_def)
  then show ?thesis using s1(1) b by (simp add: LoadSceneTextures_calls)
qed

theorem LoadSceneTextures_within_capacity_witness:
  "\<exists>s'. LoadSceneTextures every_file_rgb new_manager = Inr s'
    \<and> m_loadedTextures s' \<le> 11 \<and> m_loadedTextures s' < 16
    \<and> length (m_textureIDs s') = 16
    \<and> load_events (trace s') = 11"
  using LoadSceneTextures_within_capacity [of every_file_rgb None sequential_names "[]"]
  by (simp add: new_manager_def)

text \<open>
  C10. The specification states that with a null shader manager every setter pushes
  nothing and completes without an error. \<open>SetTransformations\<close>, \<open>SetShaderColor\<close>,
  \<open>SetShaderTexture\<close> and \<open>SetTextureUVScale\<close> test the pointer and then do nothing.
  \<open>SetShaderMaterial\<close> has no such test: when a material is defined it calls
  \<open>setVec3Value\<close> through the null pointer, for every tag (\<open>FindMaterial\<close> returns
  \<open>true\<close> whenever the list is not empty).
\<close>

theorem SetShaderMaterial_null_shader_manager:
  assumes "m_pShaderManager s = None" and "m_objectMaterials s \<noteq> []"
  shows "SetTransformations G scaleXYZ xd yd zd positionXYZ s = Inr s
    \<and> SetShaderColor r g b a s = Inr s
    \<and> SetShaderTexture textureTag s = Inr s
    \<and> SetTextureUVScale u v s = Inr s
    \<and> SetShaderMaterial uninitialised materialTag s = Inl NullDereference"
proof -
  have "fst (FindMaterial materialTag uninitialised s) = True"
    using assms(2) by (simp add: FindMaterial_def split: prod.splits)
  then have "SetShaderMaterial uninitialised materialTag s = Inl NullDereference"
    using assms
    by (auto simp: SetShaderMaterial_def shader_call_def and_then_def split: prod.splits)
  then show ?thesis
    using assms(1) by (simp add: guarded_setters_null)
qed

theorem SetShaderMaterial_null_shader_manager_witness:
  "SetShaderMaterial glassMaterial ''wood'' (new_manager\<lparr>m_objectMaterials := [woodMaterial]\<rparr>)
     = Inl NullDereference"
  using SetShaderMaterial_null_shader_manager
    [of "new_manager\<lparr>m_objectMaterials := [woodMaterial]\<rparr>"]
  by (simp add: new_manager_def)

end
